theory Spec2Isabelle
  imports Main "HOL-Library.Word" "HOL-Library.List_Lexorder" "HOL-Library.Char_ord"
    "HOL-Library.Multiset"
begin

section \<open>The composer of goexec/composer.go\<close>

text \<open>
  The theory embeds \<^verbatim>\<open>goexec/composer.go\<close>: the writer that keeps track of the
  line and column it has reached, the renderers of the five kinds of declarations, and the
  functions that compose \<^verbatim>\<open>main.go\<close> from declarations or from the lines of a cell.
  Go's \<^verbatim>\<open>int\<close> is a 64-bit two's complement integer, modelled as \<open>64 word\<close>;
  lengths (\<^verbatim>\<open>len\<close>) are natural numbers, converted where Go adds them to an
  \<^verbatim>\<open>int\<close>.
\<close>

subsection \<open>Errors\<close>

text \<open>
  Errors are values. \<open>IOError\<close> is an error of the operating system or of the
  \<^verbatim>\<open>io.Writer\<close> underneath; \<open>ShortWrite content len n\<close> is the error that
  \<^verbatim>\<open>Write\<close> builds when the writer took \<open>n\<close> bytes of \<open>len\<close>;
  \<open>Wrapped e format args\<close> is \<^verbatim>\<open>errors.Wrapf(e, format, args...)\<close> and
  \<open>Messaged e format args\<close> is \<^verbatim>\<open>errors.WithMessagef(e, format, args...)\<close>,
  each for an \<open>e\<close> that is not nil.
\<close>

datatype error =
    IOError string
  | ShortWrite string nat nat
  | Wrapped error string "string list"
  | Messaged error string "string list"

text \<open>
  Both functions of \<^verbatim>\<open>github.com/pkg/errors\<close> return nil when the error they are
  given is nil.
\<close>

definition errors_Wrapf :: "error option \<Rightarrow> string \<Rightarrow> string list \<Rightarrow> error option" where
  "errors_Wrapf e format args = (case e of None \<Rightarrow> None | Some x \<Rightarrow> Some (Wrapped x format args))"

definition errors_WithMessagef :: "error option \<Rightarrow> string \<Rightarrow> string list \<Rightarrow> error option" where
  "errors_WithMessagef e format args =
     (case e of None \<Rightarrow> None | Some x \<Rightarrow> Some (Messaged x format args))"

subsection \<open>Positions\<close>

text \<open>
  Modelled from the spec: the type \<^verbatim>\<open>Cursor\<close>, the value \<^verbatim>\<open>NoCursor\<close>
  and the method \<^verbatim>\<open>HasCursor\<close> are declared outside \<^verbatim>\<open>composer.go\<close>.
  A position is a line and a column; the "unmapped" sentinel is distinct from every real
  position, whose line and column are not negative.
\<close>

record Cursor =
  Line :: "64 word"
  Col :: "64 word"

definition NoCursorLine :: "64 word" where
  "NoCursorLine = - 1"

definition NoCursor :: Cursor where
  "NoCursor = \<lparr>Line = NoCursorLine, Col = 0\<rparr>"

definition HasCursor :: "Cursor \<Rightarrow> bool" where
  "HasCursor c = (Line c \<noteq> NoCursorLine)"

subsection \<open>The destination of the bytes\<close>

text \<open>
  The \<^verbatim>\<open>io.Writer\<close> (an \<^verbatim>\<open>os.File\<close> in two of the callers) is outside
  the program. It is modelled by the bytes it has taken so far and by its behaviour:
  \<open>faccept f sofar p\<close> is the pair \<^verbatim>\<open>(n, err)\<close> that \<^verbatim>\<open>Write(p)\<close>
  returns when the writer holds \<open>sofar\<close>; the first \<open>n\<close> bytes of \<open>p\<close> reach the
  destination. \<open>fcloseErr\<close> is what the first \<^verbatim>\<open>Close\<close> returns.
\<close>

record File =
  fbytes :: string
  faccept :: "string \<Rightarrow> string \<Rightarrow> nat \<times> error option"
  fcloseErr :: "error option"
  fclosed :: bool

definition io_Write :: "File \<Rightarrow> string \<Rightarrow> nat \<times> error option \<times> File" where
  "io_Write f p =
     (case faccept f (fbytes f) p of
        (n, e) \<Rightarrow> (n, e, f\<lparr>fbytes := fbytes f @ take n p\<rparr>))"

definition os_Close :: "File \<Rightarrow> error option \<times> File" where
  "os_Close f =
     (if fclosed f then (Some (IOError ''file already closed''), f)
      else (fcloseErr f, f\<lparr>fclosed := True\<rparr>))"

text \<open>Two behaviours used in examples: a writer that takes everything, and one that is
  full after \<open>k\<close> bytes.\<close>

definition acceptAll :: "string \<Rightarrow> string \<Rightarrow> nat \<times> error option" where
  "acceptAll sofar p = (length p, None)"

definition failAfter :: "nat \<Rightarrow> string \<Rightarrow> string \<Rightarrow> nat \<times> error option" where
  "failAfter k sofar p =
     (if length sofar + length p \<le> k then (length p, None)
      else (k - length sofar, Some (IOError ''no space left on device'')))"

definition newFile :: "(string \<Rightarrow> string \<Rightarrow> nat \<times> error option) \<Rightarrow> error option \<Rightarrow> File" where
  "newFile behaviour cl = \<lparr>fbytes = [], faccept = behaviour, fcloseErr = cl, fclosed = False\<rparr>"

subsection \<open>WriterWithCursor\<close>

text \<open>
  The fields \<^verbatim>\<open>w\<close>, \<^verbatim>\<open>err\<close>, \<^verbatim>\<open>Line\<close> and \<^verbatim>\<open>Col\<close> of the
  source are \<open>dest\<close>, \<open>werr\<close>, \<open>wLine\<close> and \<open>wCol\<close> here.
\<close>

record WriterWithCursor =
  dest :: File
  werr :: "error option"
  wLine :: "64 word"
  wCol :: "64 word"

definition NewWriterWithCursor :: "File \<Rightarrow> WriterWithCursor" where
  "NewWriterWithCursor f = \<lparr>dest = f, werr = None, wLine = 0, wCol = 0\<rparr>"

definition CursorOf :: "WriterWithCursor \<Rightarrow> Cursor" where
  "CursorOf w = \<lparr>Line = wLine w, Col = wCol w\<rparr>"

text \<open>\<^verbatim>\<open>delta.Line > 0\<close> compares signed integers.\<close>

definition CursorPlusDelta :: "WriterWithCursor \<Rightarrow> Cursor \<Rightarrow> Cursor" where
  "CursorPlusDelta w delta =
     (let fileCursor = CursorOf w;
          fileCursor = fileCursor\<lparr>Line := Line fileCursor + Line delta\<rparr>
      in if 0 < sint (Line delta) then fileCursor\<lparr>Col := Col delta\<rparr>
         else fileCursor\<lparr>Col := Col fileCursor + Col delta\<rparr>)"

definition Error :: "WriterWithCursor \<Rightarrow> error option" where
  "Error w = werr w"

text \<open>\<^verbatim>\<open>strings.Split(content, "\n")\<close>: the pieces between the line breaks, at least one.\<close>

fun splitNL :: "string \<Rightarrow> string list" where
  "splitNL [] = [[]]"
| "splitNL (c # cs) =
     (if c = CHR 0x0A then [] # splitNL cs
      else (case splitNL cs of [] \<Rightarrow> [[c]] | p # ps \<Rightarrow> (c # p) # ps))"

definition Write :: "WriterWithCursor \<Rightarrow> string \<Rightarrow> WriterWithCursor" where
  "Write w content =
     (if werr w \<noteq> None then w
      else
        (case io_Write (dest w) content of
           (n, e, f) \<Rightarrow>
             (let e = (if n \<noteq> length content
                       then Some (ShortWrite content (length content) n) else e);
                  w = w\<lparr>dest := f, werr := e\<rparr>
              in if e \<noteq> None then w
                 else
                   (let parts = splitNL content
                    in if length parts = 1
                       then w\<lparr>wCol := wCol w + of_nat (length (parts ! 0))\<rparr>
                       else w\<lparr>wLine := wLine w + of_nat (length parts - 1),
                              wCol := of_nat (length (parts ! (length parts - 1)))\<rparr>))))"

text \<open>\<open>Writef w text\<close>, where \<open>text\<close> is the result of \<^verbatim>\<open>fmt.Sprintf(format, args...)\<close>.\<close>

definition Writef :: "WriterWithCursor \<Rightarrow> string \<Rightarrow> WriterWithCursor" where
  "Writef w text = (if werr w \<noteq> None then w else Write w text)"

subsection \<open>Declarations\<close>

text \<open>
  Modelled from the spec: the types \<^verbatim>\<open>Import\<close>, \<^verbatim>\<open>Variable\<close>,
  \<^verbatim>\<open>Function\<close>, \<^verbatim>\<open>TypeDecl\<close>, \<^verbatim>\<open>Constant\<close> and
  \<^verbatim>\<open>Declarations\<close> are declared outside \<^verbatim>\<open>composer.go\<close>; the records
  hold the fields that \<^verbatim>\<open>composer.go\<close> reads, each field with a prefix for its
  type (\<open>impAlias\<close> is \<^verbatim>\<open>Import.Alias\<close>). An entry holds the texts of its
  rendering, flags that say which text holds the position of interest, and the delta of
  that position from the start of the text. A \<^verbatim>\<open>Function\<close> embeds its
  \<^verbatim>\<open>Cursor\<close>: \<^verbatim>\<open>funcDecl.HasCursor()\<close> is \<open>HasCursor (fnCursor funcDecl)\<close>.

  A Go map is a list of pairs of distinct keys: the order of the list is the order in
  which \<^verbatim>\<open>range\<close> happens to visit the map. The constants are linked by pointers
  (\<^verbatim>\<open>Prev\<close>, \<^verbatim>\<open>Next\<close>): a pointer is an address, nil is \<open>None\<close>, and the
  heap gives the constant at each address.
\<close>

type_synonym 'v gomap = "(string \<times> 'v) list"

record Import =
  impAlias :: string
  impPath :: string
  impCursorInAlias :: bool
  impCursorInPath :: bool
  impCursor :: Cursor

record Variable =
  varName :: string
  varTypeDefinition :: string
  varValueDefinition :: string
  varCursorInName :: bool
  varCursorInType :: bool
  varCursorInValue :: bool
  varCursor :: Cursor

record Function =
  fnDefinition :: string
  fnCursor :: Cursor

record TypeDecl =
  tyTypeDefinition :: string
  tyCursorInKey :: bool
  tyCursorInType :: bool
  tyCursor :: Cursor

type_synonym addr = nat

record Constant =
  cKey :: string
  cTypeDefinition :: string
  cValueDefinition :: string
  cCursorInKey :: bool
  cCursorInType :: bool
  cCursorInValue :: bool
  cCursor :: Cursor
  cPrev :: "addr option"
  cNext :: "addr option"

type_synonym heap = "addr \<Rightarrow> Constant"

record Declarations =
  Imports :: "Import gomap"
  Functions :: "Function gomap"
  Variables :: "Variable gomap"
  Types :: "TypeDecl gomap"
  Constants :: "addr gomap"

subsection \<open>The renderers\<close>

abbreviation NL :: string where
  "NL \<equiv> [CHR 0x0A]"

abbreviation TAB :: string where
  "TAB \<equiv> [CHR 0x09]"

definition sortedKeys :: "'v gomap \<Rightarrow> string list" where
  "sortedKeys m = sort (map fst m)"

text \<open>
  The body of each loop is a function of its own. The keys of a loop come from the map
  itself, so the lookup finds an entry; a key that is not in the map gives nil in Go, and
  the model leaves the state as it is.

  \<open>quote\<close> stands for the verb \<^verbatim>\<open>%q\<close> of \<^verbatim>\<open>fmt\<close> on a string.
\<close>

definition RenderImports_body ::
  "(string \<Rightarrow> string) \<Rightarrow> Import \<Rightarrow> Cursor \<times> WriterWithCursor \<Rightarrow> Cursor \<times> WriterWithCursor" where
  "RenderImports_body quote importDecl st =
     (case st of (cursor, w) \<Rightarrow>
        (let w = Write w TAB;
             (cursor, w) =
               (if impAlias importDecl \<noteq> []
                then (let cursor = (if impCursorInAlias importDecl
                                    then CursorPlusDelta w (impCursor importDecl) else cursor)
                      in (cursor, Writef w (impAlias importDecl @ '' '')))
                else (cursor, w));
             cursor = (if impCursorInPath importDecl
                       then CursorPlusDelta w (impCursor importDecl) else cursor)
         in (cursor, Writef w (quote (impPath importDecl) @ NL))))"

fun RenderImports_loop ::
  "(string \<Rightarrow> string) \<Rightarrow> Import gomap \<Rightarrow> string list \<Rightarrow> Cursor \<times> WriterWithCursor
     \<Rightarrow> Cursor \<times> WriterWithCursor" where
  "RenderImports_loop quote m [] st = st"
| "RenderImports_loop quote m (key # keys) st =
     (case map_of m key of
        None \<Rightarrow> RenderImports_loop quote m keys st
      | Some importDecl \<Rightarrow>
          RenderImports_loop quote m keys (RenderImports_body quote importDecl st))"

definition RenderImports ::
  "(string \<Rightarrow> string) \<Rightarrow> Declarations \<Rightarrow> WriterWithCursor \<Rightarrow> Cursor \<times> WriterWithCursor" where
  "RenderImports quote d w =
     (if length (Imports d) = 0 then (NoCursor, w)
      else
        (let w = Write w (''import ('' @ NL)
         in case RenderImports_loop quote (Imports d) (sortedKeys (Imports d)) (NoCursor, w) of
              (cursor, w) \<Rightarrow> (cursor, Write w ('')'' @ NL @ NL))))"

definition RenderVariables_body ::
  "Variable \<Rightarrow> Cursor \<times> WriterWithCursor \<Rightarrow> Cursor \<times> WriterWithCursor" where
  "RenderVariables_body varDecl st =
     (case st of (cursor, w) \<Rightarrow>
        (let w = Write w TAB;
             cursor = (if varCursorInName varDecl
                       then CursorPlusDelta w (varCursor varDecl) else cursor);
             w = Write w (varName varDecl);
             (cursor, w) =
               (if varTypeDefinition varDecl \<noteq> []
                then (let w = Write w '' '';
                          cursor = (if varCursorInType varDecl
                                    then CursorPlusDelta w (varCursor varDecl) else cursor)
                      in (cursor, Write w (varTypeDefinition varDecl)))
                else (cursor, w));
             (cursor, w) =
               (if varValueDefinition varDecl \<noteq> []
                then (let w = Write w '' = '';
                          cursor = (if varCursorInValue varDecl
                                    then CursorPlusDelta w (varCursor varDecl) else cursor)
                      in (cursor, Write w (varValueDefinition varDecl)))
                else (cursor, w))
         in (cursor, Write w NL)))"

fun RenderVariables_loop ::
  "Variable gomap \<Rightarrow> string list \<Rightarrow> Cursor \<times> WriterWithCursor \<Rightarrow> Cursor \<times> WriterWithCursor" where
  "RenderVariables_loop m [] st = st"
| "RenderVariables_loop m (key # keys) st =
     (case map_of m key of
        None \<Rightarrow> RenderVariables_loop m keys st
      | Some varDecl \<Rightarrow> RenderVariables_loop m keys (RenderVariables_body varDecl st))"

definition RenderVariables :: "Declarations \<Rightarrow> WriterWithCursor \<Rightarrow> Cursor \<times> WriterWithCursor" where
  "RenderVariables d w =
     (if length (Variables d) = 0 then (NoCursor, w)
      else
        (let w = Write w (''var ('' @ NL)
         in case RenderVariables_loop (Variables d) (sortedKeys (Variables d)) (NoCursor, w) of
              (cursor, w) \<Rightarrow> (cursor, Write w ('')'' @ NL @ NL))))"

text \<open>\<^verbatim>\<open>strings.HasPrefix(s, prefix)\<close>, and \<^verbatim>\<open>strings.Replace(s, old, new, 1)\<close>, which
  replaces the leftmost occurrence of \<open>old\<close>.\<close>

definition strings_HasPrefix :: "string \<Rightarrow> string \<Rightarrow> bool" where
  "strings_HasPrefix s prefix = (take (length prefix) s = prefix)"

fun strings_Replace1 :: "string \<Rightarrow> string \<Rightarrow> string \<Rightarrow> string" where
  "strings_Replace1 [] old new = (if old = [] then new else [])"
| "strings_Replace1 (c # s) old new =
     (if take (length old) (c # s) = old then new @ drop (length old) (c # s)
      else c # strings_Replace1 s old new)"

definition RenderFunctions_body ::
  "string \<Rightarrow> Function \<Rightarrow> Cursor \<times> WriterWithCursor \<Rightarrow> Cursor \<times> WriterWithCursor" where
  "RenderFunctions_body key funcDecl st =
     (case st of (cursor, w) \<Rightarrow>
        (let def = fnDefinition funcDecl;
             cursor = (if HasCursor (fnCursor funcDecl)
                       then CursorPlusDelta w (fnCursor funcDecl) else cursor);
             def = (if strings_HasPrefix key ''init_''
                    then strings_Replace1 def key ''init'' else def)
         in (cursor, Writef w (def @ NL @ NL))))"

fun RenderFunctions_loop ::
  "Function gomap \<Rightarrow> string list \<Rightarrow> Cursor \<times> WriterWithCursor \<Rightarrow> Cursor \<times> WriterWithCursor" where
  "RenderFunctions_loop m [] st = st"
| "RenderFunctions_loop m (key # keys) st =
     (case map_of m key of
        None \<Rightarrow> RenderFunctions_loop m keys st
      | Some funcDecl \<Rightarrow> RenderFunctions_loop m keys (RenderFunctions_body key funcDecl st))"

definition RenderFunctions :: "Declarations \<Rightarrow> WriterWithCursor \<Rightarrow> Cursor \<times> WriterWithCursor" where
  "RenderFunctions d w =
     (if length (Functions d) = 0 then (NoCursor, w)
      else RenderFunctions_loop (Functions d) (sortedKeys (Functions d)) (NoCursor, w))"

definition RenderTypes_body ::
  "string \<Rightarrow> TypeDecl \<Rightarrow> Cursor \<times> WriterWithCursor \<Rightarrow> Cursor \<times> WriterWithCursor" where
  "RenderTypes_body key typeDecl st =
     (case st of (cursor, w) \<Rightarrow>
        (let w = Write w ''type '';
             cursor = (if tyCursorInKey typeDecl
                       then CursorPlusDelta w (tyCursor typeDecl) else cursor);
             w = Writef w (key @ '' '');
             cursor = (if tyCursorInType typeDecl
                       then CursorPlusDelta w (tyCursor typeDecl) else cursor)
         in (cursor, Writef w (tyTypeDefinition typeDecl @ NL))))"

fun RenderTypes_loop ::
  "TypeDecl gomap \<Rightarrow> string list \<Rightarrow> Cursor \<times> WriterWithCursor \<Rightarrow> Cursor \<times> WriterWithCursor" where
  "RenderTypes_loop m [] st = st"
| "RenderTypes_loop m (key # keys) st =
     (case map_of m key of
        None \<Rightarrow> RenderTypes_loop m keys st
      | Some typeDecl \<Rightarrow> RenderTypes_loop m keys (RenderTypes_body key typeDecl st))"

definition RenderTypes :: "Declarations \<Rightarrow> WriterWithCursor \<Rightarrow> Cursor \<times> WriterWithCursor" where
  "RenderTypes d w =
     (if length (Types d) = 0 then (NoCursor, w)
      else
        (case RenderTypes_loop (Types d) (sortedKeys (Types d)) (NoCursor, w) of
           (cursor, w) \<Rightarrow> (cursor, Write w NL)))"

subsection \<open>The constants\<close>

definition Constant_Render ::
  "Constant \<Rightarrow> Cursor \<times> WriterWithCursor \<Rightarrow> Cursor \<times> WriterWithCursor" where
  "Constant_Render c st =
     (case st of (cursor, w) \<Rightarrow>
        (let cursor = (if cCursorInKey c then CursorPlusDelta w (cCursor c) else cursor);
             w = Write w (cKey c);
             (cursor, w) =
               (if cTypeDefinition c \<noteq> []
                then (let w = Write w '' '';
                          cursor = (if cCursorInType c
                                    then CursorPlusDelta w (cCursor c) else cursor)
                      in (cursor, Write w (cTypeDefinition c)))
                else (cursor, w));
             (cursor, w) =
               (if cValueDefinition c \<noteq> []
                then (let w = Write w '' = '';
                          cursor = (if cCursorInValue c
                                    then CursorPlusDelta w (cCursor c) else cursor)
                      in (cursor, Write w (cValueDefinition c)))
                else (cursor, w))
         in (cursor, w)))"

text \<open>
  One constant of a \<^verbatim>\<open>const ( ... )\<close> block, and the loop
  \<^verbatim>\<open>for constDecl != nil\<close> that follows the \<^verbatim>\<open>Next\<close> pointers. The loop does
  not end when the pointers form a cycle: its result is an option, \<open>None\<close> when it
  does not return.
\<close>

definition RenderConstants_entry ::
  "Constant \<Rightarrow> Cursor \<times> WriterWithCursor \<Rightarrow> Cursor \<times> WriterWithCursor" where
  "RenderConstants_entry c st =
     (case st of (cursor, w) \<Rightarrow>
        (case Constant_Render c (cursor, Write w TAB) of
           (cursor, w) \<Rightarrow> (cursor, Write w NL)))"

partial_function (option) RenderConstants_block ::
  "heap \<Rightarrow> addr option \<Rightarrow> Cursor \<times> WriterWithCursor \<Rightarrow> (Cursor \<times> WriterWithCursor) option" where
  "RenderConstants_block h constDecl st =
     (case constDecl of
        None \<Rightarrow> Some st
      | Some a \<Rightarrow> RenderConstants_block h (cNext (h a)) (RenderConstants_entry (h a) st))"

declare RenderConstants_block.simps [code]

fun RenderConstants_loop ::
  "heap \<Rightarrow> addr gomap \<Rightarrow> string list \<Rightarrow> Cursor \<times> WriterWithCursor
     \<Rightarrow> (Cursor \<times> WriterWithCursor) option" where
  "RenderConstants_loop h m [] st = Some st"
| "RenderConstants_loop h m (headKey # headKeys) st =
     (case map_of m headKey of
        None \<Rightarrow> None
      | Some a \<Rightarrow>
          (if cNext (h a) = None
           then (case st of (cursor, w) \<Rightarrow>
                   (case Constant_Render (h a) (cursor, Write w ''const '') of
                      (cursor, w) \<Rightarrow>
                        RenderConstants_loop h m headKeys (cursor, Write w (NL @ NL))))
           else (case st of (cursor, w) \<Rightarrow>
                   (case RenderConstants_block h (Some a) (cursor, Write w (''const ('' @ NL)) of
                      None \<Rightarrow> None
                    | Some (cursor, w) \<Rightarrow>
                        RenderConstants_loop h m headKeys (cursor, Write w ('')'' @ NL @ NL))))))"

definition headKeysOf :: "heap \<Rightarrow> addr gomap \<Rightarrow> string list" where
  "headKeysOf h m = map fst (filter (\<lambda>(key, a). cPrev (h a) = None) m)"

definition RenderConstants ::
  "heap \<Rightarrow> Declarations \<Rightarrow> WriterWithCursor \<Rightarrow> (Cursor \<times> WriterWithCursor) option" where
  "RenderConstants h d w =
     (if length (Constants d) = 0 then Some (NoCursor, w)
      else RenderConstants_loop h (Constants d) (sort (headKeysOf h (Constants d))) (NoCursor, w))"


subsection \<open>Composing main.go from declarations\<close>

text \<open>
  \<^verbatim>\<open>mergeCursorAndReportError\<close> is a closure over the results \<open>cursor\<close> and
  \<open>err\<close> of \<^verbatim>\<open>createMainContentsFromDecls\<close>: it takes their values and returns
  the new ones after its own result. It passes \<open>err\<close> itself, not the error of the
  writer, to \<^verbatim>\<open>errors.WithMessagef\<close>.
\<close>

definition mergeCursorAndReportError ::
  "Cursor \<Rightarrow> error option \<Rightarrow> WriterWithCursor \<Rightarrow> Cursor \<Rightarrow> string
     \<Rightarrow> bool \<times> Cursor \<times> error option" where
  "mergeCursorAndReportError cursor err w cursorInFile name =
     (if Error w \<noteq> None then (True, cursor, errors_WithMessagef err ''in block %q'' [name])
      else if HasCursor cursorInFile then (False, cursorInFile, err)
      else (False, cursor, err))"

text \<open>The end of the function: the declaration of \<^verbatim>\<open>main\<close>, when there is one.\<close>

definition writeMainDecl ::
  "Function option \<Rightarrow> Cursor \<times> WriterWithCursor \<Rightarrow> Cursor \<times> WriterWithCursor" where
  "writeMainDecl mainDecl st =
     (case st of (cursor, w) \<Rightarrow>
        (case mainDecl of
           None \<Rightarrow> (cursor, w)
         | Some m \<Rightarrow>
             (let w = Writef w NL;
                  cursor = (if HasCursor (fnCursor m)
                            then (fnCursor m)\<lparr>Line := Line (fnCursor m) + wLine w\<rparr>
                            else cursor)
              in (cursor, Writef w (fnDefinition m @ NL)))))"

text \<open>
  The result is the cursor, the error and the writer as the function leaves it; \<open>None\<close>
  when the loop over a block of constants does not return.
\<close>

definition createMainContentsFromDecls ::
  "(string \<Rightarrow> string) \<Rightarrow> heap \<Rightarrow> File \<Rightarrow> Declarations \<Rightarrow> Function option
     \<Rightarrow> (Cursor \<times> error option \<times> WriterWithCursor) option" where
  "createMainContentsFromDecls quote h writer decls mainDecl =
     (let cursor = NoCursor;
          err = None;
          w = NewWriterWithCursor writer;
          w = Writef w (''package main'' @ NL @ NL)
      in if err \<noteq> None then Some (cursor, err, w)
      else
      (case RenderImports quote decls w of (c, w) \<Rightarrow>
      (case mergeCursorAndReportError cursor err w c ''imports'' of (stop, cursor, err) \<Rightarrow>
      if stop then Some (cursor, err, w)
      else
      (case RenderTypes decls w of (c, w) \<Rightarrow>
      (case mergeCursorAndReportError cursor err w c ''types'' of (stop, cursor, err) \<Rightarrow>
      if stop then Some (cursor, err, w)
      else
      (case RenderConstants h decls w of
         None \<Rightarrow> None
       | Some (c, w) \<Rightarrow>
      (case mergeCursorAndReportError cursor err w c ''constants'' of (stop, cursor, err) \<Rightarrow>
      if stop then Some (cursor, err, w)
      else
      (case RenderVariables decls w of (c, w) \<Rightarrow>
      (case mergeCursorAndReportError cursor err w c ''variables'' of (stop, cursor, err) \<Rightarrow>
      if stop then Some (cursor, err, w)
      else
      (case RenderFunctions decls w of (c, w) \<Rightarrow>
      (case mergeCursorAndReportError cursor err w c ''functions'' of (stop, cursor, err) \<Rightarrow>
      if stop then Some (cursor, err, w)
      else
      (case writeMainDecl mainDecl (cursor, w) of
         (cursor, w) \<Rightarrow> Some (cursor, err, w)))))))))))))"

text \<open>
  \<^verbatim>\<open>os.Create\<close> is a parameter: the file, or the error. The result holds the file as
  the function leaves it, when it was created. When the creation fails, the cursor is the
  zero value of the result, not \<^verbatim>\<open>NoCursor\<close>.
\<close>

definition createMainFileFromDecls ::
  "(string \<Rightarrow> string) \<Rightarrow> heap \<Rightarrow> (string \<Rightarrow> error + File) \<Rightarrow> string \<Rightarrow> Declarations
     \<Rightarrow> Function option \<Rightarrow> (Cursor \<times> error option \<times> File option) option" where
  "createMainFileFromDecls quote h os_Create mainPath decls mainDecl =
     (case os_Create mainPath of
        Inl e \<Rightarrow> Some (\<lparr>Line = 0, Col = 0\<rparr>, Some e, None)
      | Inr f \<Rightarrow>
          (case createMainContentsFromDecls quote h f decls mainDecl of
             None \<Rightarrow> None
           | Some (cursor, err, w) \<Rightarrow>
               (case os_Close (dest w) of
                  (err2, f) \<Rightarrow>
                    if err \<noteq> None
                    then Some (cursor, errors_Wrapf err ''creating main.go'' [], Some f)
                    else
                      (let err = err2
                       in if err \<noteq> None
                          then Some (cursor, errors_Wrapf err ''closing main.go'' [], Some f)
                          else Some (cursor, err, Some f)))))"

subsection \<open>Writing lines to a file\<close>

text \<open>
  \<^verbatim>\<open>fmt.Fprintf(f, "%s\n", line)\<close> is one \<^verbatim>\<open>Write\<close> of the line and a line
  break, and returns the error of that \<^verbatim>\<open>Write\<close>. The channel of lines is the list
  of the lines it delivers.
\<close>

fun writeLinesToFile_loop ::
  "string \<Rightarrow> string list \<Rightarrow> error option \<times> File \<Rightarrow> error option \<times> File" where
  "writeLinesToFile_loop filePath [] st = st"
| "writeLinesToFile_loop filePath (line # lines) st =
     (case st of (err, f) \<Rightarrow>
        if err \<noteq> None then writeLinesToFile_loop filePath lines (err, f)
        else
          (case io_Write f (line @ NL) of
             (n, err, f) \<Rightarrow>
               writeLinesToFile_loop filePath lines
                 (if err \<noteq> None then errors_Wrapf err ''writing to %q'' [filePath] else err, f)))"

definition writeLinesToFile ::
  "(string \<Rightarrow> error + File) \<Rightarrow> string \<Rightarrow> string list \<Rightarrow> error option \<times> File option" where
  "writeLinesToFile os_Create filePath lines =
     (case os_Create filePath of
        Inl e \<Rightarrow> (errors_Wrapf (Some e) ''creating %q'' [filePath], None)
      | Inr f \<Rightarrow>
          (case writeLinesToFile_loop filePath lines (None, f) of
             (err, f) \<Rightarrow>
               (case os_Close f of
                  (newErr, f) \<Rightarrow>
                    (if newErr \<noteq> None \<and> err = None
                     then errors_Wrapf newErr ''closing %q'' [filePath] else err, Some f))))"

subsection \<open>Composing main.go from the lines of a cell\<close>

text \<open>
  The loop over the lines, with the index \<open>ii\<close> of the line. Its state is
  \<open>cursorInFile\<close>, \<open>createdFuncMain\<close> and the writer. \<open>skipLines\<close> is the set of
  the keys of the map.
\<close>

definition createGoFileFromLines_body ::
  "64 word set \<Rightarrow> Cursor \<Rightarrow> nat \<Rightarrow> string \<Rightarrow> Cursor \<times> bool \<times> WriterWithCursor
     \<Rightarrow> Cursor \<times> bool \<times> WriterWithCursor" where
  "createGoFileFromLines_body skipLines cursorInCell ii line st =
     (case st of (cursorInFile, createdFuncMain, w) \<Rightarrow>
        if strings_HasPrefix line ''%main'' \<or> strings_HasPrefix line ''%%''
        then (cursorInFile, True, Write w (''func main() {'' @ NL @ TAB @ ''flag.Parse'' @ NL))
        else if of_nat ii \<in> skipLines then (cursorInFile, createdFuncMain, w)
        else
          (let w = (if createdFuncMain \<and> line \<noteq> [] then Write w TAB else w);
               cursorInFile = (if of_nat ii = Line cursorInCell
                               then CursorPlusDelta w \<lparr>Line = 0, Col = Col cursorInCell\<rparr>
                               else cursorInFile);
               w = Write w line
           in (cursorInFile, createdFuncMain, Write w NL)))"

fun createGoFileFromLines_loop ::
  "64 word set \<Rightarrow> Cursor \<Rightarrow> nat \<Rightarrow> string list \<Rightarrow> Cursor \<times> bool \<times> WriterWithCursor
     \<Rightarrow> Cursor \<times> bool \<times> WriterWithCursor" where
  "createGoFileFromLines_loop skipLines cursorInCell ii [] st = st"
| "createGoFileFromLines_loop skipLines cursorInCell ii (line # lines) st =
     createGoFileFromLines_loop skipLines cursorInCell (Suc ii) lines
       (createGoFileFromLines_body skipLines cursorInCell ii line st)"

text \<open>
  The file is closed on every path: by the function itself when no write has failed (and
  once more by the deferred call when that \<^verbatim>\<open>Close\<close> fails), by the deferred call
  otherwise, which drops the error of \<^verbatim>\<open>Close\<close>.
\<close>

definition createGoFileFromLines ::
  "(string \<Rightarrow> error + File) \<Rightarrow> string \<Rightarrow> string list \<Rightarrow> 64 word set \<Rightarrow> Cursor
     \<Rightarrow> Cursor \<times> error option \<times> File option" where
  "createGoFileFromLines os_Create filePath lines skipLines cursorInCell =
     (case os_Create filePath of
        Inl e \<Rightarrow> (NoCursor, errors_Wrapf (Some e) ''Failed to create %q'' [filePath], None)
      | Inr f \<Rightarrow>
          (let w = NewWriterWithCursor f;
               w = Write w (''package main'' @ NL @ NL)
           in case createGoFileFromLines_loop skipLines cursorInCell 0 lines (NoCursor, False, w) of
                (cursorInFile, createdFuncMain, w) \<Rightarrow>
                  (let w = (if createdFuncMain then Write w (NL @ ''}'' @ NL) else w)
                   in if Error w \<noteq> None
                      then (cursorInFile, Error w, Some (snd (os_Close (dest w))))
                      else
                        (case os_Close (dest w) of
                           (err, f) \<Rightarrow>
                             if err \<noteq> None
                             then (cursorInFile,
                                   errors_Wrapf err ''Failed to close %q'' [filePath],
                                   Some (snd (os_Close f)))
                             else (cursorInFile, err, Some f)))))"


subsection \<open>Notions used in the statements\<close>

text \<open>A destination that takes every byte it is given, and a writer on such a destination
  that has met no error.\<close>

definition reliable :: "File \<Rightarrow> bool" where
  "reliable f = (\<forall>sofar p. faccept f sofar p = (length p, None))"

definition healthy :: "WriterWithCursor \<Rightarrow> bool" where
  "healthy w = (werr w = None \<and> reliable (dest w))"

text \<open>\<open>chain h p as\<close>: following the \<^verbatim>\<open>Next\<close> pointers from \<open>p\<close> visits the
  addresses \<open>as\<close> and reaches nil.\<close>

inductive chain :: "heap \<Rightarrow> addr option \<Rightarrow> addr list \<Rightarrow> bool" for h :: heap where
  chain_nil: "chain h None []"
| chain_next: "chain h (cNext (h a)) as \<Longrightarrow> chain h (Some a) (a # as)"

text \<open>The text of a constant, and the text of a block of constants: a block of one constant
  is a declaration on one line, a longer one lists its constants between parentheses.\<close>

definition constText :: "Constant \<Rightarrow> string" where
  "constText c =
     cKey c @ (if cTypeDefinition c \<noteq> [] then '' '' @ cTypeDefinition c else [])
       @ (if cValueDefinition c \<noteq> [] then '' = '' @ cValueDefinition c else [])"

definition blockText :: "heap \<Rightarrow> addr list \<Rightarrow> string" where
  "blockText h as =
     (case as of
        [a] \<Rightarrow> ''const '' @ constText (h a) @ NL @ NL
      | _ \<Rightarrow> ''const ('' @ NL @ concat (map (\<lambda>a. TAB @ constText (h a) @ NL) as) @ '')'' @ NL @ NL)"

text \<open>
  Two lists of pairs are the same Go map, visited in two orders, when the keys are distinct
  and the lists hold the same pairs.
\<close>

definition sameMap :: "'v gomap \<Rightarrow> 'v gomap \<Rightarrow> bool" where
  "sameMap m m' = (distinct (map fst m) \<and> mset m' = mset m)"

text \<open>The entries of a map in the lexicographic order of their keys.\<close>

definition inKeyOrder :: "'v gomap \<Rightarrow> (string \<times> 'v) list" where
  "inKeyOrder m = sort_key fst m"

text \<open>An import carries a marker that \<^verbatim>\<open>RenderImports\<close> reads: on its alias, when
  it has one, or on its path.\<close>

definition impMarked :: "Import \<Rightarrow> bool" where
  "impMarked i = ((impAlias i \<noteq> [] \<and> impCursorInAlias i) \<or> impCursorInPath i)"

text \<open>The last of a list of candidate cursors that is not the sentinel;
  \<^verbatim>\<open>NoCursor\<close> when there is none.\<close>

definition lastCursor :: "Cursor list \<Rightarrow> Cursor" where
  "lastCursor cs = foldl (\<lambda>cursor c. if HasCursor c then c else cursor) NoCursor cs"

text \<open>
  The composer as the spec words it, to compare with \<open>createMainContentsFromDecls\<close>:
  every renderer and the write of the entry point are invoked in their order, also after
  an error of the writer, and the cursor is the last candidate that is not the sentinel.
\<close>

definition createMainContents_allPhases ::
  "(string \<Rightarrow> string) \<Rightarrow> heap \<Rightarrow> File \<Rightarrow> Declarations \<Rightarrow> Function option
     \<Rightarrow> (Cursor \<times> WriterWithCursor) option" where
  "createMainContents_allPhases quote h writer decls mainDecl =
     (let w = Writef (NewWriterWithCursor writer) (''package main'' @ NL @ NL)
      in case RenderImports quote decls w of (c1, w) \<Rightarrow>
         (case RenderTypes decls w of (c2, w) \<Rightarrow>
         (case RenderConstants h decls w of
            None \<Rightarrow> None
          | Some (c3, w) \<Rightarrow>
         (case RenderVariables decls w of (c4, w) \<Rightarrow>
         (case RenderFunctions decls w of (c5, w) \<Rightarrow>
            Some (writeMainDecl mainDecl (lastCursor [c1, c2, c3, c4, c5], w)))))))"

text \<open>
  The writes of \<^verbatim>\<open>createGoFileFromLines\<close>, line by line. A directive line opens
  \<^verbatim>\<open>func main\<close>, whether its index is in \<open>skipLines\<close> or not; another line
  whose index is in \<open>skipLines\<close> writes nothing; any other line is written with a line
  break after it, and with a tab before it when a directive line comes before it and the
  line is not empty. After the last line, \<^verbatim>\<open>func main\<close> is closed when some line
  is a directive line.
\<close>

definition isDirective :: "string \<Rightarrow> bool" where
  "isDirective line = (strings_HasPrefix line ''%main'' \<or> strings_HasPrefix line ''%%'')"

definition lineWrites :: "64 word set \<Rightarrow> string list \<Rightarrow> nat \<Rightarrow> string list" where
  "lineWrites skipLines lines i =
     (if isDirective (lines ! i)
      then [''func main() {'' @ NL @ TAB @ ''flag.Parse'' @ NL]
      else if of_nat i \<in> skipLines then []
      else (if list_ex isDirective (take i lines) \<and> lines ! i \<noteq> [] then [TAB] else [])
           @ [lines ! i, NL])"

definition fileWrites :: "64 word set \<Rightarrow> string list \<Rightarrow> string list" where
  "fileWrites skipLines lines =
     [''package main'' @ NL @ NL]
     @ concat (map (lineWrites skipLines lines) [0..<length lines])
     @ (if list_ex isDirective lines then [NL @ ''}'' @ NL] else [])"

subsection \<open>Example inputs\<close>

text \<open>The verb \<^verbatim>\<open>%q\<close> on a string of letters: the string between double quotes.\<close>

definition quoteLetters :: "string \<Rightarrow> string" where
  "quoteLetters s = [CHR 0x22] @ s @ [CHR 0x22]"

definition importFmt :: Import where
  "importFmt = \<lparr>impAlias = ''f'', impPath = ''fmt'', impCursorInAlias = True,
     impCursorInPath = False, impCursor = \<lparr>Line = 0, Col = 2\<rparr>\<rparr>"

definition importOs :: Import where
  "importOs = \<lparr>impAlias = [], impPath = ''os'', impCursorInAlias = False,
     impCursorInPath = False, impCursor = NoCursor\<rparr>"

definition noDecls :: Declarations where
  "noDecls = \<lparr>Imports = [], Functions = [], Variables = [], Types = [], Constants = []\<rparr>"

definition twoImports :: Declarations where
  "twoImports = noDecls\<lparr>Imports := [(''os'', importOs), (''fmt'', importFmt)]\<rparr>"

definition typeT :: TypeDecl where
  "typeT = \<lparr>tyTypeDefinition = ''struct{}'', tyCursorInKey = False, tyCursorInType = False,
     tyCursor = NoCursor\<rparr>"

definition typeU :: TypeDecl where
  "typeU = \<lparr>tyTypeDefinition = ''int'', tyCursorInKey = False, tyCursorInType = False,
     tyCursor = NoCursor\<rparr>"

definition varV :: Variable where
  "varV = \<lparr>varName = ''v'', varTypeDefinition = ''int'', varValueDefinition = ''1'',
     varCursorInName = False, varCursorInType = False, varCursorInValue = False,
     varCursor = NoCursor\<rparr>"

definition varX :: Variable where
  "varX = \<lparr>varName = ''x'', varTypeDefinition = [], varValueDefinition = ''2'',
     varCursorInName = False, varCursorInType = False, varCursorInValue = False,
     varCursor = NoCursor\<rparr>"

definition funcF :: Function where
  "funcF = \<lparr>fnDefinition = ''func f() {}'', fnCursor = NoCursor\<rparr>"

definition funcInit :: Function where
  "funcInit = \<lparr>fnDefinition = ''func init_1() {}'', fnCursor = NoCursor\<rparr>"

text \<open>Three constants: the block of \<open>A\<close> and \<open>B\<close>, at the addresses 10 and 20, and
  \<open>Z\<close> alone, at the address 30.\<close>

definition constA :: Constant where
  "constA = \<lparr>cKey = ''A'', cTypeDefinition = ''int'', cValueDefinition = ''iota'',
     cCursorInKey = False, cCursorInType = False, cCursorInValue = False, cCursor = NoCursor,
     cPrev = None, cNext = Some 20\<rparr>"

definition constB :: Constant where
  "constB = \<lparr>cKey = ''B'', cTypeDefinition = [], cValueDefinition = [],
     cCursorInKey = False, cCursorInType = False, cCursorInValue = False, cCursor = NoCursor,
     cPrev = Some 10, cNext = None\<rparr>"

definition constZ :: Constant where
  "constZ = \<lparr>cKey = ''Z'', cTypeDefinition = [], cValueDefinition = ''26'',
     cCursorInKey = False, cCursorInType = False, cCursorInValue = False, cCursor = NoCursor,
     cPrev = None, cNext = None\<rparr>"

definition sampleHeap :: heap where
  "sampleHeap = (\<lambda>a. constZ)(10 := constA, 20 := constB)"

definition sampleDecls :: Declarations where
  "sampleDecls = \<lparr>Imports = [(''os'', importOs), (''fmt'', importFmt)],
     Functions = [(''init_1'', funcInit), (''f'', funcF)],
     Variables = [(''x'', varX), (''v'', varV)],
     Types = [(''U'', typeU), (''T'', typeT)],
     Constants = [(''B'', 20), (''Z'', 30), (''A'', 10)]\<rparr>"

text \<open>The same declarations, with every map visited in another order.\<close>

definition sampleDeclsReordered :: Declarations where
  "sampleDeclsReordered = \<lparr>Imports = [(''fmt'', importFmt), (''os'', importOs)],
     Functions = [(''f'', funcF), (''init_1'', funcInit)],
     Variables = [(''v'', varV), (''x'', varX)],
     Types = [(''T'', typeT), (''U'', typeU)],
     Constants = [(''A'', 10), (''B'', 20), (''Z'', 30)]\<rparr>"

definition mainSample :: Function where
  "mainSample = \<lparr>fnDefinition = ''func main() {}'', fnCursor = \<lparr>Line = 0, Col = 5\<rparr>\<rparr>"

definition onlyType :: Declarations where
  "onlyType = noDecls\<lparr>Types := [(''T'', typeT)]\<rparr>"

definition onlyConstant :: Declarations where
  "onlyConstant = noDecls\<lparr>Constants := [(''Z'', 30)]\<rparr>"

definition onlyVariable :: Declarations where
  "onlyVariable = noDecls\<lparr>Variables := [(''v'', varV)]\<rparr>"

definition onlyFunction :: Declarations where
  "onlyFunction = noDecls\<lparr>Functions := [(''f'', funcF)]\<rparr>"

section \<open>Properties\<close>

subsection \<open>The writer\<close>

lemma Write_failed [simp]: "werr w \<noteq> None \<Longrightarrow> Write w content = w"
  by (simp add: Write_def)

lemma Writef_failed [simp]: "werr w \<noteq> None \<Longrightarrow> Writef w text = w"
  by (simp add: Writef_def)

lemma Writef_eq_Write: "Writef w text = Write w text"
  by (simp add: Writef_def Write_def)

lemma foldl_Write_failed: "werr w \<noteq> None \<Longrightarrow> foldl Write w texts = w"
  by (induction texts) simp_all

lemma foldl_Writef_failed: "werr w \<noteq> None \<Longrightarrow> foldl Writef w texts = w"
  by (induction texts) simp_all

text \<open>
  C4. Once the error of the writer is set, every later \<^verbatim>\<open>Write\<close> and
  \<^verbatim>\<open>Writef\<close>, and every sequence of them, leaves the writer as it is: the bytes of
  the destination, the line and the column do not change, and \<^verbatim>\<open>Error()\<close> still
  returns the failure that was recorded first.
\<close>

theorem sticky_error:
  assumes "Error w = Some e"
  shows "Write w content = w \<and> Writef w text = w
       \<and> foldl Write w texts = w \<and> foldl Writef w texts = w
       \<and> fbytes (dest (Write w content)) = fbytes (dest w)
       \<and> wLine (Write w content) = wLine w \<and> wCol (Write w content) = wCol w
       \<and> Error (Write w content) = Some e \<and> Error (Writef w text) = Some e
       \<and> Error (foldl Write w texts) = Some e"
proof -
  from assms have failed: "werr w \<noteq> None"
    by (simp add: Error_def)
  then have "Write w content = w" and "Writef w text = w"
    and "foldl Write w texts = w" and "foldl Writef w texts = w"
    by (simp_all add: foldl_Write_failed foldl_Writef_failed)
  with assms show ?thesis
    by simp
qed

theorem sticky_error_witness:
  "Error (Write (NewWriterWithCursor (newFile (failAfter 2) None)) ''abc'')
     = Some (ShortWrite ''abc'' 3 2)
   \<and> Write (Write (NewWriterWithCursor (newFile (failAfter 2) None)) ''abc'') ''de''
     = Write (NewWriterWithCursor (newFile (failAfter 2) None)) ''abc''
   \<and> fbytes (dest (Write (Write (NewWriterWithCursor (newFile (failAfter 2) None)) ''abc'') ''de''))
     = ''ab''
   \<and> Error (Write (Write (NewWriterWithCursor (newFile (failAfter 2) None)) ''abc'') ''de'')
     = Some (ShortWrite ''abc'' 3 2)"
proof -
  have first: "Error (Write (NewWriterWithCursor (newFile (failAfter 2) None)) ''abc'')
       = Some (ShortWrite ''abc'' 3 2)"
    by (simp add: Error_def Write_def NewWriterWithCursor_def newFile_def failAfter_def
        io_Write_def)
  have bytes: "fbytes (dest (Write (NewWriterWithCursor (newFile (failAfter 2) None)) ''abc''))
       = ''ab''"
    by (simp add: Write_def NewWriterWithCursor_def newFile_def failAfter_def io_Write_def)
  from sticky_error [OF first, of "''de''" "''de''" "[]"] first bytes show ?thesis
    by simp
qed

lemmas run_writer = Write_def Writef_def io_Write_def NewWriterWithCursor_def newFile_def
  acceptAll_def failAfter_def CursorPlusDelta_def CursorOf_def Let_def

subsection \<open>The position of a marker in an import\<close>

lemma RenderImports_loop_append:
  "RenderImports_loop q m (xs @ ys) st = RenderImports_loop q m ys (RenderImports_loop q m xs st)"
  by (induction xs arbitrary: st) (simp_all split: option.splits)


lemma RenderImports_body_unmarked:
  "\<not> impMarked i \<Longrightarrow> fst (RenderImports_body q i st) = fst st"
  by (cases st) (auto simp add: RenderImports_body_def impMarked_def Let_def)

lemma RenderImports_loop_unmarked:
  "\<forall>key \<in> set keys. \<forall>i. map_of m key = Some i \<longrightarrow> \<not> impMarked i
     \<Longrightarrow> fst (RenderImports_loop q m keys st) = fst st"
  by (induction keys arbitrary: st) (simp_all add: RenderImports_body_unmarked split: option.splits)

lemma RenderImports_body_alias:
  assumes "impAlias i \<noteq> []" "impCursorInAlias i" "\<not> impCursorInPath i"
  shows "fst (RenderImports_body q i (c, w)) = CursorPlusDelta (Write w TAB) (impCursor i)"
  using assms by (simp add: RenderImports_body_def Let_def)

lemma import_alias:
  assumes keys: "sortedKeys (Imports d) = before @ key # after"
    and entry: "map_of (Imports d) key = Some i"
    and marked: "impAlias i \<noteq> []" "impCursorInAlias i" "\<not> impCursorInPath i"
    and delta: "impCursor i = \<lparr>Line = 0, Col = dc\<rparr>"
    and rest: "\<forall>k \<in> set after. \<forall>j. map_of (Imports d) k = Some j \<longrightarrow> \<not> impMarked j"
    and atAlias: "atAlias = Write (snd (RenderImports_loop q (Imports d) before
                 (NoCursor, Write w (''import ('' @ NL)))) TAB"
  shows "fst (RenderImports q d w) = \<lparr>Line = wLine atAlias, Col = wCol atAlias + dc\<rparr>"
proof -
  from keys have nonempty: "Imports d \<noteq> []"
    by (auto simp add: sortedKeys_def)
  obtain c0 w0 where st0: "RenderImports_loop q (Imports d) before
       (NoCursor, Write w (''import ('' @ NL)) = (c0, w0)"
    by (cases "RenderImports_loop q (Imports d) before (NoCursor, Write w (''import ('' @ NL))")
  have "fst (RenderImports_loop q (Imports d) (before @ key # after)
            (NoCursor, Write w (''import ('' @ NL)))
        = fst (RenderImports_body q i (c0, w0))"
    using entry rest st0
    by (simp add: RenderImports_loop_append RenderImports_loop_unmarked)
  also have "\<dots> = CursorPlusDelta (Write w0 TAB) (impCursor i)"
    using marked by (rule RenderImports_body_alias)
  also have "\<dots> = \<lparr>Line = wLine atAlias, Col = wCol atAlias + dc\<rparr>"
    using st0 atAlias delta by (simp add: CursorPlusDelta_def CursorOf_def Let_def)
  finally show ?thesis
    using nonempty keys by (simp add: RenderImports_def case_prod_beta)
qed

text \<open>
  C2. For every writer and every delta, \<^verbatim>\<open>CursorPlusDelta\<close> returns the line of the
  writer plus the line of the delta (Go's addition of \<^verbatim>\<open>int\<close>); the column is the
  column of the delta when the line of the delta is positive, and the column of the writer
  plus the column of the delta otherwise, so also when the line of the delta is 0.
  In particular, for an import whose marker is on its alias with the delta (0, 2), and no
  import after it in the order of the keys with a marker, \<^verbatim>\<open>RenderImports\<close> returns
  the line that the writer has reached when the alias is written, and the column it has
  reached there plus 2.
\<close>

theorem CursorPlusDelta_position:
  assumes keys: "sortedKeys (Imports d) = before @ key # after"
    and entry: "map_of (Imports d) key = Some i"
    and marked: "impAlias i \<noteq> []" "impCursorInAlias i" "\<not> impCursorInPath i"
    and delta: "impCursor i = \<lparr>Line = 0, Col = 2\<rparr>"
    and rest: "\<forall>k \<in> set after. \<forall>j. map_of (Imports d) k = Some j \<longrightarrow> \<not> impMarked j"
    and atAlias: "atAlias = Write (snd (RenderImports_loop quote (Imports d) before
                 (NoCursor, Write w (''import ('' @ NL)))) TAB"
  shows "(\<forall>w dl dc.
            Line (CursorPlusDelta w \<lparr>Line = dl, Col = dc\<rparr>) = wLine w + dl
          \<and> Col (CursorPlusDelta w \<lparr>Line = dl, Col = dc\<rparr>)
              = (if 0 < sint dl then dc else wCol w + dc))
       \<and> fst (RenderImports quote d w) = \<lparr>Line = wLine atAlias, Col = wCol atAlias + 2\<rparr>"
proof -
  have "fst (RenderImports quote d w) = \<lparr>Line = wLine atAlias, Col = wCol atAlias + 2\<rparr>"
    using assms by (rule import_alias)
  then show ?thesis
    by (simp add: CursorPlusDelta_def CursorOf_def Let_def)
qed

lemma twoImports_keys: "sortedKeys (Imports twoImports) = [] @ ''fmt'' # [''os'']"
  by (simp add: sortedKeys_def twoImports_def)

theorem CursorPlusDelta_position_witness:
  "fst (RenderImports quoteLetters twoImports (NewWriterWithCursor (newFile acceptAll None)))
     = \<lparr>Line = 1, Col = 3\<rparr>
   \<and> Line (CursorPlusDelta (NewWriterWithCursor (newFile acceptAll None)) \<lparr>Line = 1, Col = 4\<rparr>) = 1"
proof -
  have entry: "map_of (Imports twoImports) ''fmt'' = Some importFmt"
    by (simp add: twoImports_def)
  have rest: "\<forall>k \<in> set [''os'']. \<forall>j. map_of (Imports twoImports) k = Some j \<longrightarrow> \<not> impMarked j"
    by (simp add: twoImports_def impMarked_def importOs_def)
  have pos: "wLine (Write (Write (NewWriterWithCursor (newFile acceptAll None)) (''import ('' @ NL)) TAB) = 1"
    "wCol (Write (Write (NewWriterWithCursor (newFile acceptAll None)) (''import ('' @ NL)) TAB) = 1"
    by (simp_all add: run_writer)
  from CursorPlusDelta_position [where quote = quoteLetters
      and w = "NewWriterWithCursor (newFile acceptAll None)", OF twoImports_keys entry] rest pos
  show ?thesis
    by (simp add: importFmt_def NewWriterWithCursor_def)
qed

subsection \<open>The order of the entries\<close>

lemma sameMap_map_of: "sameMap m m' \<Longrightarrow> map_of m' = map_of m"
proof -
  assume a: "sameMap m m'"
  then have d: "distinct (map fst m)" and ms: "mset m' = mset m" by (simp_all add: sameMap_def)
  from ms have "mset (map fst m') = mset (map fst m)" by (metis mset_map)
  with d have d': "distinct (map fst m')" by (metis mset_eq_imp_distinct_iff)
  from ms have "set m' = set m" by (metis set_mset_mset)
  with d d' show ?thesis by (simp add: map_of_inject_set)
qed

lemma sameMap_sortedKeys: "sameMap m m' \<Longrightarrow> sortedKeys m' = sortedKeys m"
proof -
  assume "sameMap m m'"
  then have "mset (map fst m') = mset (map fst m)" by (metis sameMap_def mset_map)
  then show ?thesis unfolding sortedKeys_def by (intro properties_for_sort) simp_all
qed

lemma sameMap_length: "sameMap m m' \<Longrightarrow> length m' = length m"
  by (metis sameMap_def size_mset)

lemma RenderImports_loop_cong: "map_of m' = map_of m \<Longrightarrow> RenderImports_loop q m' keys st = RenderImports_loop q m keys st"
  by (induction keys arbitrary: st) (simp_all split: option.splits)
lemma RenderTypes_loop_cong: "map_of m' = map_of m \<Longrightarrow> RenderTypes_loop m' keys st = RenderTypes_loop m keys st"
  by (induction keys arbitrary: st) (simp_all split: option.splits)
lemma RenderVariables_loop_cong: "map_of m' = map_of m \<Longrightarrow> RenderVariables_loop m' keys st = RenderVariables_loop m keys st"
  by (induction keys arbitrary: st) (simp_all split: option.splits)
lemma RenderFunctions_loop_cong: "map_of m' = map_of m \<Longrightarrow> RenderFunctions_loop m' keys st = RenderFunctions_loop m keys st"
  by (induction keys arbitrary: st) (simp_all split: option.splits)

lemma RenderImports_sameMap: "sameMap (Imports d) (Imports d') \<Longrightarrow> RenderImports q d' w = RenderImports q d w"
  by (simp add: RenderImports_def sameMap_sortedKeys sameMap_length
      RenderImports_loop_cong [OF sameMap_map_of])

lemma RenderTypes_sameMap: "sameMap (Types d) (Types d') \<Longrightarrow> RenderTypes d' w = RenderTypes d w"
  by (simp add: RenderTypes_def sameMap_sortedKeys sameMap_length
      RenderTypes_loop_cong [OF sameMap_map_of])

lemma RenderVariables_sameMap:
  "sameMap (Variables d) (Variables d') \<Longrightarrow> RenderVariables d' w = RenderVariables d w"
  by (simp add: RenderVariables_def sameMap_sortedKeys sameMap_length
      RenderVariables_loop_cong [OF sameMap_map_of])

lemma RenderFunctions_sameMap:
  "sameMap (Functions d) (Functions d') \<Longrightarrow> RenderFunctions d' w = RenderFunctions d w"
  by (simp add: RenderFunctions_def sameMap_sortedKeys sameMap_length
      RenderFunctions_loop_cong [OF sameMap_map_of])

lemma sortedKeys_sorted: "sorted (sortedKeys m) \<and> set (sortedKeys m) = fst ` set m"
  by (simp add: sortedKeys_def)

lemma sortedKeys_inKeyOrder: "sortedKeys m = map fst (inKeyOrder m)"
  unfolding sortedKeys_def inKeyOrder_def by (rule properties_for_sort) simp_all

lemma map_of_inKeyOrder:
  "distinct (map fst m) \<Longrightarrow> \<forall>(k, v) \<in> set (inKeyOrder m). map_of m k = Some v"
  by (auto simp add: inKeyOrder_def)

lemma RenderImports_loop_fold:
  "\<forall>(k, v) \<in> set kvs. map_of m k = Some v \<Longrightarrow>
   RenderImports_loop q m (map fst kvs) st
     = foldl (\<lambda>st (key, v). RenderImports_body q v st) st kvs"
  by (induction kvs arbitrary: st) (simp_all add: case_prod_unfold)

lemma RenderTypes_loop_fold:
  "\<forall>(k, v) \<in> set kvs. map_of m k = Some v \<Longrightarrow>
   RenderTypes_loop m (map fst kvs) st
     = foldl (\<lambda>st (key, v). RenderTypes_body key v st) st kvs"
  by (induction kvs arbitrary: st) (simp_all add: case_prod_unfold)

lemma RenderVariables_loop_fold:
  "\<forall>(k, v) \<in> set kvs. map_of m k = Some v \<Longrightarrow>
   RenderVariables_loop m (map fst kvs) st
     = foldl (\<lambda>st (key, v). RenderVariables_body v st) st kvs"
  by (induction kvs arbitrary: st) (simp_all add: case_prod_unfold)

lemma RenderFunctions_loop_fold:
  "\<forall>(k, v) \<in> set kvs. map_of m k = Some v \<Longrightarrow>
   RenderFunctions_loop m (map fst kvs) st
     = foldl (\<lambda>st (key, v). RenderFunctions_body key v st) st kvs"
  by (induction kvs arbitrary: st) (simp_all add: case_prod_unfold)

lemma RenderImports_fold:
  assumes "distinct (map fst (Imports d))"
  shows "RenderImports quote d w
       = (if Imports d = [] then (NoCursor, w)
          else (case foldl (\<lambda>st (key, v). RenderImports_body quote v st)
                       (NoCursor, Write w (''import ('' @ NL)) (inKeyOrder (Imports d)) of
                  (cursor, w) \<Rightarrow> (cursor, Write w ('')'' @ NL @ NL))))"
  by (simp add: RenderImports_def sortedKeys_inKeyOrder
      RenderImports_loop_fold [OF map_of_inKeyOrder [OF assms]])

lemma RenderTypes_fold:
  assumes "distinct (map fst (Types d))"
  shows "RenderTypes d w
       = (if Types d = [] then (NoCursor, w)
          else (case foldl (\<lambda>st (key, v). RenderTypes_body key v st)
                       (NoCursor, w) (inKeyOrder (Types d)) of
                  (cursor, w) \<Rightarrow> (cursor, Write w NL)))"
  by (simp add: RenderTypes_def sortedKeys_inKeyOrder
      RenderTypes_loop_fold [OF map_of_inKeyOrder [OF assms]])

lemma RenderVariables_fold:
  assumes "distinct (map fst (Variables d))"
  shows "RenderVariables d w
       = (if Variables d = [] then (NoCursor, w)
          else (case foldl (\<lambda>st (key, v). RenderVariables_body v st)
                       (NoCursor, Write w (''var ('' @ NL)) (inKeyOrder (Variables d)) of
                  (cursor, w) \<Rightarrow> (cursor, Write w ('')'' @ NL @ NL))))"
  by (simp add: RenderVariables_def sortedKeys_inKeyOrder
      RenderVariables_loop_fold [OF map_of_inKeyOrder [OF assms]])

lemma RenderFunctions_fold:
  assumes "distinct (map fst (Functions d))"
  shows "RenderFunctions d w
       = (if Functions d = [] then (NoCursor, w)
          else foldl (\<lambda>st (key, v). RenderFunctions_body key v st)
                 (NoCursor, w) (inKeyOrder (Functions d)))"
  by (simp add: RenderFunctions_def sortedKeys_inKeyOrder
      RenderFunctions_loop_fold [OF map_of_inKeyOrder [OF assms]])

lemma inKeyOrder_sorted:
  "sorted (map fst (inKeyOrder m)) \<and> mset (inKeyOrder m) = mset m"
  by (simp add: inKeyOrder_def)


text \<open>
  C8. The renderers of imports, types, variables and functions visit the entries of their
  map in the lexicographic order of the keys, whatever the order in which the map hands
  them out. Each renderer is the fold of the body of its loop over \<open>inKeyOrder\<close> of its
  map, between the texts that open and close its block, and writes nothing for an empty
  map; \<open>inKeyOrder\<close> of a map holds the entries of the map, sorted by key. Two
  declaration models that hold the same maps, visited in different orders, give the same
  cursor and the same writer, so the same bytes.
\<close>

theorem renderers_deterministic:
  assumes "sameMap (Imports d) (Imports d')" and "sameMap (Types d) (Types d')"
    and "sameMap (Variables d) (Variables d')" and "sameMap (Functions d) (Functions d')"
  shows "RenderImports quote d' w = RenderImports quote d w
       \<and> RenderTypes d' w = RenderTypes d w
       \<and> RenderVariables d' w = RenderVariables d w
       \<and> RenderFunctions d' w = RenderFunctions d w
       \<and> RenderImports_loop quote (Imports d) (sortedKeys (Imports d)) st
           = foldl (\<lambda>st (key, v). RenderImports_body quote v st) st (inKeyOrder (Imports d))
       \<and> RenderTypes_loop (Types d) (sortedKeys (Types d)) st
           = foldl (\<lambda>st (key, v). RenderTypes_body key v st) st (inKeyOrder (Types d))
       \<and> RenderVariables_loop (Variables d) (sortedKeys (Variables d)) st
           = foldl (\<lambda>st (key, v). RenderVariables_body v st) st (inKeyOrder (Variables d))
       \<and> RenderFunctions_loop (Functions d) (sortedKeys (Functions d)) st
           = foldl (\<lambda>st (key, v). RenderFunctions_body key v st) st (inKeyOrder (Functions d))
       \<and> RenderImports quote d w
           = (if Imports d = [] then (NoCursor, w)
              else (case foldl (\<lambda>st (key, v). RenderImports_body quote v st)
                           (NoCursor, Write w (''import ('' @ NL)) (inKeyOrder (Imports d)) of
                      (cursor, w) \<Rightarrow> (cursor, Write w ('')'' @ NL @ NL))))
       \<and> RenderTypes d w
           = (if Types d = [] then (NoCursor, w)
              else (case foldl (\<lambda>st (key, v). RenderTypes_body key v st)
                           (NoCursor, w) (inKeyOrder (Types d)) of
                      (cursor, w) \<Rightarrow> (cursor, Write w NL)))
       \<and> RenderVariables d w
           = (if Variables d = [] then (NoCursor, w)
              else (case foldl (\<lambda>st (key, v). RenderVariables_body v st)
                           (NoCursor, Write w (''var ('' @ NL)) (inKeyOrder (Variables d)) of
                      (cursor, w) \<Rightarrow> (cursor, Write w ('')'' @ NL @ NL))))
       \<and> RenderFunctions d w
           = (if Functions d = [] then (NoCursor, w)
              else foldl (\<lambda>st (key, v). RenderFunctions_body key v st)
                     (NoCursor, w) (inKeyOrder (Functions d)))
       \<and> sorted (map fst (inKeyOrder (Imports d))) \<and> mset (inKeyOrder (Imports d)) = mset (Imports d)
       \<and> sorted (map fst (inKeyOrder (Types d))) \<and> mset (inKeyOrder (Types d)) = mset (Types d)
       \<and> sorted (map fst (inKeyOrder (Variables d)))
       \<and> mset (inKeyOrder (Variables d)) = mset (Variables d)
       \<and> sorted (map fst (inKeyOrder (Functions d)))
       \<and> mset (inKeyOrder (Functions d)) = mset (Functions d)"
proof -
  from assms have dI: "distinct (map fst (Imports d))" and dT: "distinct (map fst (Types d))"
    and dV: "distinct (map fst (Variables d))" and dF: "distinct (map fst (Functions d))"
    by (simp_all add: sameMap_def)
  have "\<forall>(k, v) \<in> set (inKeyOrder (Imports d)). map_of (Imports d) k = Some v"
    and "\<forall>(k, v) \<in> set (inKeyOrder (Types d)). map_of (Types d) k = Some v"
    and "\<forall>(k, v) \<in> set (inKeyOrder (Variables d)). map_of (Variables d) k = Some v"
    and "\<forall>(k, v) \<in> set (inKeyOrder (Functions d)). map_of (Functions d) k = Some v"
    by (rule map_of_inKeyOrder [OF dI], rule map_of_inKeyOrder [OF dT],
        rule map_of_inKeyOrder [OF dV], rule map_of_inKeyOrder [OF dF])
  then have invariance: "RenderImports quote d' w = RenderImports quote d w
       \<and> RenderTypes d' w = RenderTypes d w
       \<and> RenderVariables d' w = RenderVariables d w
       \<and> RenderFunctions d' w = RenderFunctions d w
       \<and> RenderImports_loop quote (Imports d) (sortedKeys (Imports d)) st
           = foldl (\<lambda>st (key, v). RenderImports_body quote v st) st (inKeyOrder (Imports d))
       \<and> RenderTypes_loop (Types d) (sortedKeys (Types d)) st
           = foldl (\<lambda>st (key, v). RenderTypes_body key v st) st (inKeyOrder (Types d))
       \<and> RenderVariables_loop (Variables d) (sortedKeys (Variables d)) st
           = foldl (\<lambda>st (key, v). RenderVariables_body v st) st (inKeyOrder (Variables d))
       \<and> RenderFunctions_loop (Functions d) (sortedKeys (Functions d)) st
           = foldl (\<lambda>st (key, v). RenderFunctions_body key v st) st (inKeyOrder (Functions d))"
    using assms
    by (simp only: RenderImports_sameMap RenderTypes_sameMap RenderVariables_sameMap
        RenderFunctions_sameMap sortedKeys_inKeyOrder RenderImports_loop_fold
        RenderTypes_loop_fold RenderVariables_loop_fold RenderFunctions_loop_fold simp_thms)
  note folds = RenderImports_fold [OF dI, of quote w] RenderTypes_fold [OF dT, of w]
    RenderVariables_fold [OF dV, of w] RenderFunctions_fold [OF dF, of w]
  note order = inKeyOrder_sorted [of "Imports d"] inKeyOrder_sorted [of "Types d"]
    inKeyOrder_sorted [of "Variables d"] inKeyOrder_sorted [of "Functions d"]
  from invariance folds order show ?thesis
    by (intro conjI) (erule conjunct1 conjunct2 | assumption | elim conjE)+
qed


theorem renderers_deterministic_witness:
  "RenderImports quoteLetters sampleDeclsReordered (NewWriterWithCursor (newFile acceptAll None))
     = RenderImports quoteLetters sampleDecls (NewWriterWithCursor (newFile acceptAll None))
   \<and> RenderTypes sampleDeclsReordered (NewWriterWithCursor (newFile acceptAll None))
     = RenderTypes sampleDecls (NewWriterWithCursor (newFile acceptAll None))
   \<and> RenderVariables sampleDeclsReordered (NewWriterWithCursor (newFile acceptAll None))
     = RenderVariables sampleDecls (NewWriterWithCursor (newFile acceptAll None))
   \<and> RenderFunctions sampleDeclsReordered (NewWriterWithCursor (newFile acceptAll None))
     = RenderFunctions sampleDecls (NewWriterWithCursor (newFile acceptAll None))
   \<and> fbytes (dest (snd (RenderImports quoteLetters sampleDecls
         (NewWriterWithCursor (newFile acceptAll None)))))
     = ''import ('' @ NL @ TAB @ ''f '' @ quoteLetters ''fmt'' @ NL
         @ TAB @ quoteLetters ''os'' @ NL @ '')'' @ NL @ NL
   \<and> fbytes (dest (snd (RenderTypes sampleDecls (NewWriterWithCursor (newFile acceptAll None)))))
     = ''type T struct{}'' @ NL @ ''type U int'' @ NL @ NL
   \<and> fbytes (dest (snd (RenderVariables sampleDecls
         (NewWriterWithCursor (newFile acceptAll None)))))
     = ''var ('' @ NL @ TAB @ ''v int = 1'' @ NL @ TAB @ ''x = 2'' @ NL @ '')'' @ NL @ NL
   \<and> fbytes (dest (snd (RenderFunctions sampleDecls
         (NewWriterWithCursor (newFile acceptAll None)))))
     = ''func f() {}'' @ NL @ NL @ ''func init() {}'' @ NL @ NL"
proof -
  let ?W = "NewWriterWithCursor (newFile acceptAll None)"
  have same: "sameMap (Imports sampleDecls) (Imports sampleDeclsReordered)"
    "sameMap (Types sampleDecls) (Types sampleDeclsReordered)"
    "sameMap (Variables sampleDecls) (Variables sampleDeclsReordered)"
    "sameMap (Functions sampleDecls) (Functions sampleDeclsReordered)"
    by (simp_all add: sameMap_def sampleDecls_def sampleDeclsReordered_def)
  note T = renderers_deterministic [OF same, of quoteLetters ?W]
  have order: "inKeyOrder (Imports sampleDecls) = [(''fmt'', importFmt), (''os'', importOs)]"
    "inKeyOrder (Types sampleDecls) = [(''T'', typeT), (''U'', typeU)]"
    "inKeyOrder (Variables sampleDecls) = [(''v'', varV), (''x'', varX)]"
    "inKeyOrder (Functions sampleDecls) = [(''f'', funcF), (''init_1'', funcInit)]"
    by (simp_all add: inKeyOrder_def sampleDecls_def)
  have nonempty: "Imports sampleDecls \<noteq> []" "Types sampleDecls \<noteq> []"
    "Variables sampleDecls \<noteq> []" "Functions sampleDecls \<noteq> []"
    by (simp_all add: sampleDecls_def)
  have i: "fbytes (dest (snd (RenderImports quoteLetters sampleDecls ?W)))
      = ''import ('' @ NL @ TAB @ ''f '' @ quoteLetters ''fmt'' @ NL
         @ TAB @ quoteLetters ''os'' @ NL @ '')'' @ NL @ NL"
    unfolding T [THEN conjunct2, THEN conjunct2, THEN conjunct2, THEN conjunct2, THEN conjunct2,
        THEN conjunct2, THEN conjunct2, THEN conjunct2, THEN conjunct1] order
    by (simp add: nonempty RenderImports_body_def importFmt_def importOs_def quoteLetters_def
        run_writer)
  have t: "fbytes (dest (snd (RenderTypes sampleDecls ?W)))
      = ''type T struct{}'' @ NL @ ''type U int'' @ NL @ NL"
    unfolding T [THEN conjunct2, THEN conjunct2, THEN conjunct2, THEN conjunct2, THEN conjunct2,
        THEN conjunct2, THEN conjunct2, THEN conjunct2, THEN conjunct2, THEN conjunct1] order
    by (simp add: nonempty RenderTypes_body_def typeT_def typeU_def run_writer)
  have v: "fbytes (dest (snd (RenderVariables sampleDecls ?W)))
      = ''var ('' @ NL @ TAB @ ''v int = 1'' @ NL @ TAB @ ''x = 2'' @ NL @ '')'' @ NL @ NL"
    unfolding T [THEN conjunct2, THEN conjunct2, THEN conjunct2, THEN conjunct2, THEN conjunct2,
        THEN conjunct2, THEN conjunct2, THEN conjunct2, THEN conjunct2, THEN conjunct2,
        THEN conjunct1] order
    by (simp add: nonempty RenderVariables_body_def varV_def varX_def run_writer)
  have f: "fbytes (dest (snd (RenderFunctions sampleDecls ?W)))
      = ''func f() {}'' @ NL @ NL @ ''func init() {}'' @ NL @ NL"
    unfolding T [THEN conjunct2, THEN conjunct2, THEN conjunct2, THEN conjunct2, THEN conjunct2,
        THEN conjunct2, THEN conjunct2, THEN conjunct2, THEN conjunct2, THEN conjunct2,
        THEN conjunct2, THEN conjunct1] order
    by (simp add: nonempty RenderFunctions_body_def funcF_def funcInit_def run_writer
        strings_HasPrefix_def HasCursor_def NoCursor_def)
  from T i t v f show ?thesis
    by simp
qed

subsection \<open>The constants\<close>

lemma Write_healthy:
  assumes "healthy w"
  shows "healthy (Write w content)" and "fbytes (dest (Write w content)) = fbytes (dest w) @ content"
  using assms by (simp_all add: healthy_def reliable_def Write_def io_Write_def Let_def)

lemma Writef_healthy:
  assumes "healthy w"
  shows "healthy (Writef w content)" and "fbytes (dest (Writef w content)) = fbytes (dest w) @ content"
  using assms by (simp_all add: Writef_eq_Write Write_healthy)

lemma Constant_Render_healthy:
  assumes "healthy w"
  shows "healthy (snd (Constant_Render c (cursor, w)))"
    and "fbytes (dest (snd (Constant_Render c (cursor, w)))) = fbytes (dest w) @ constText c"
  using assms by (simp_all add: Constant_Render_def constText_def Let_def Write_healthy)

lemma RenderConstants_entry_healthy:
  assumes "healthy (snd st)"
  shows "healthy (snd (RenderConstants_entry c st))"
    and "fbytes (dest (snd (RenderConstants_entry c st)))
           = fbytes (dest (snd st)) @ TAB @ constText c @ NL"
  using assms
  by (cases st; simp add: RenderConstants_entry_def case_prod_unfold Write_healthy Constant_Render_healthy)+

lemma entries_healthy:
  assumes "healthy (snd st)"
  shows "healthy (snd (foldl (\<lambda>st a. RenderConstants_entry (h a) st) st as))
       \<and> fbytes (dest (snd (foldl (\<lambda>st a. RenderConstants_entry (h a) st) st as)))
           = fbytes (dest (snd st)) @ concat (map (\<lambda>a. TAB @ constText (h a) @ NL) as)"
  using assms by (induction as arbitrary: st) (simp_all add: RenderConstants_entry_healthy)

lemma block_chain:
  "chain h p as \<Longrightarrow>
   RenderConstants_block h p st = Some (foldl (\<lambda>st a. RenderConstants_entry (h a) st) st as)"
proof (induction arbitrary: st rule: chain.induct)
  case chain_nil
  show ?case by (subst RenderConstants_block.simps) simp
next
  case (chain_next a as)
  show ?case by (subst RenderConstants_block.simps) (simp add: chain_next.IH)
qed

inductive_cases chain_NoneE: "chain h None as"
inductive_cases chain_SomeE: "chain h (Some a) as"

lemma chain_single: "chain h (Some a) as \<Longrightarrow> cNext (h a) = None \<Longrightarrow> as = [a]"
  by (erule chain_SomeE) (auto elim: chain_NoneE)

lemma chain_several:
  "chain h (Some a) as \<Longrightarrow> cNext (h a) \<noteq> None \<Longrightarrow> \<exists>b bs. as = a # b # bs"
  by (erule chain_SomeE) (auto elim!: chain_SomeE)

lemma RenderConstants_loop_text:
  assumes "\<forall>key \<in> set keys. \<exists>a. map_of m key = Some a \<and> chain h (Some a) (block key)"
    and "healthy w"
  shows "\<exists>cursor' w'. RenderConstants_loop h m keys (cursor, w) = Some (cursor', w')
           \<and> healthy w'
           \<and> fbytes (dest w') = fbytes (dest w) @ concat (map (\<lambda>key. blockText h (block key)) keys)"
  using assms
proof (induction keys arbitrary: cursor w)
  case Nil
  then show ?case by simp
next
  case (Cons key keys)
  then obtain a where a: "map_of m key = Some a" and ch: "chain h (Some a) (block key)"
    by auto
  show ?case
  proof (cases "cNext (h a) = None")
    case True
    with ch have blk: "block key = [a]" by (rule chain_single)
    obtain c1 w1 where r: "Constant_Render (h a) (cursor, Write w ''const '') = (c1, w1)"
      by (cases "Constant_Render (h a) (cursor, Write w ''const '')")
    from Constant_Render_healthy [of "Write w ''const ''" "h a" cursor] Cons.prems(2) r
    have h1: "healthy w1" and b1: "fbytes (dest w1) = fbytes (dest w) @ ''const '' @ constText (h a)"
      by (simp_all add: Write_healthy)
    then have h2: "healthy (Write w1 (NL @ NL))"
      and b2: "fbytes (dest (Write w1 (NL @ NL))) = fbytes (dest w) @ blockText h (block key)"
      by (simp_all add: Write_healthy blk blockText_def)
    from Cons.IH [of "Write w1 (NL @ NL)" c1] Cons.prems(1) h2 b2
    obtain c' w' where "RenderConstants_loop h m keys (c1, Write w1 (NL @ NL)) = Some (c', w')"
      and "healthy w'"
      and "fbytes (dest w') = fbytes (dest w) @ blockText h (block key)
             @ concat (map (\<lambda>key. blockText h (block key)) keys)"
      by auto
    with a True r show ?thesis by simp
  next
    case False
    with ch obtain b bs where blk: "block key = a # b # bs" by (auto dest: chain_several)
    let ?w0 = "Write w (''const ('' @ NL)"
    let ?st = "foldl (\<lambda>st a. RenderConstants_entry (h a) st) (cursor, ?w0) (block key)"
    have run: "RenderConstants_block h (Some a) (cursor, ?w0) = Some ?st"
      using ch by (rule block_chain)
    obtain c1 w1 where st: "?st = (c1, w1)" by (cases ?st)
    from entries_healthy [of "(cursor, ?w0)" h "block key"] Cons.prems(2) st
    have h1: "healthy w1"
      and b1: "fbytes (dest w1) = fbytes (dest w) @ ''const ('' @ NL
                 @ concat (map (\<lambda>a. TAB @ constText (h a) @ NL) (block key))"
      by (simp_all add: Write_healthy)
    then have h2: "healthy (Write w1 ('')'' @ NL @ NL))"
      and b2: "fbytes (dest (Write w1 ('')'' @ NL @ NL))) = fbytes (dest w) @ blockText h (block key)"
      by (simp_all add: Write_healthy blk blockText_def)
    from Cons.IH [of "Write w1 ('')'' @ NL @ NL)" c1] Cons.prems(1) h2 b2
    obtain c' w' where "RenderConstants_loop h m keys (c1, Write w1 ('')'' @ NL @ NL)) = Some (c', w')"
      and "healthy w'"
      and "fbytes (dest w') = fbytes (dest w) @ blockText h (block key)
             @ concat (map (\<lambda>key. blockText h (block key)) keys)"
      by auto
    moreover from False obtain n where "cNext (h a) = Some n" by auto
    ultimately show ?thesis using a run st by simp
  qed
qed


lemma RenderConstants_loop_cong:
  "map_of m' = map_of m \<Longrightarrow>
   RenderConstants_loop h m' keys st = RenderConstants_loop h m keys st"
  by (induction keys arbitrary: st) (simp_all split: option.splits prod.splits)

lemma sameMap_headKeys:
  assumes "sameMap m m'"
  shows "sort (headKeysOf h m') = sort (headKeysOf h m)"
proof -
  from assms have "mset m' = mset m" by (simp add: sameMap_def)
  then have "mset (headKeysOf h m') = mset (headKeysOf h m)"
    unfolding headKeysOf_def by (simp only: mset_map mset_filter)
  then show ?thesis by (intro properties_for_sort) simp_all
qed

lemma RenderConstants_sameMap:
  assumes "sameMap (Constants d) m'"
  shows "RenderConstants h (d\<lparr>Constants := m'\<rparr>) w = RenderConstants h d w"
  using assms
  by (simp add: RenderConstants_def sameMap_headKeys sameMap_length
      RenderConstants_loop_cong [OF sameMap_map_of])

lemma headKeys_blocks:
  assumes "distinct (map fst m)"
    and "\<forall>(key, a) \<in> set m. cPrev (h a) = None \<longrightarrow> chain h (Some a) (block key)"
  shows "\<forall>key \<in> set (sort (headKeysOf h m)).
           \<exists>a. map_of m key = Some a \<and> chain h (Some a) (block key)"
  using assms by (fastforce simp add: headKeysOf_def)

text \<open>
  C3. The heads of the blocks are the keys of the constants with no \<^verbatim>\<open>Prev\<close>.
  When the chain that starts at each head ends (\<open>block key\<close> being the addresses it
  visits, from the head to the tail) and no write fails, \<^verbatim>\<open>RenderConstants\<close>
  returns, and the bytes it adds are the texts of the blocks in the lexicographic order of
  the keys of their heads: a block of one constant as one \<^verbatim>\<open>const\<close> line, a longer
  block between \<^verbatim>\<open>const (\<close> and \<^verbatim>\<open>)\<close> with its constants in the order of
  the chain. The result is the same for every order in which the map is visited.
\<close>

theorem constants_in_chain_order:
  assumes "distinct (map fst (Constants d))"
    and "\<forall>(key, a) \<in> set (Constants d). cPrev (h a) = None \<longrightarrow> chain h (Some a) (block key)"
    and "healthy w"
  shows "set (headKeysOf h (Constants d))
           = {key. \<exists>a. (key, a) \<in> set (Constants d) \<and> cPrev (h a) = None}
       \<and> (\<exists>cursor w'. RenderConstants h d w = Some (cursor, w')
             \<and> fbytes (dest w') = fbytes (dest w)
                 @ concat (map (\<lambda>key. blockText h (block key))
                     (sort (headKeysOf h (Constants d)))))
       \<and> (\<forall>m'. sameMap (Constants d) m' \<longrightarrow>
             RenderConstants h (d\<lparr>Constants := m'\<rparr>) w = RenderConstants h d w)"
proof -
  have heads: "set (headKeysOf h (Constants d))
      = {key. \<exists>a. (key, a) \<in> set (Constants d) \<and> cPrev (h a) = None}"
    by (auto simp add: headKeysOf_def image_iff)
  have bytes: "\<exists>cursor w'. RenderConstants h d w = Some (cursor, w')
             \<and> fbytes (dest w') = fbytes (dest w)
                 @ concat (map (\<lambda>key. blockText h (block key))
                     (sort (headKeysOf h (Constants d))))"
  proof (cases "Constants d = []")
    case True
    then show ?thesis by (simp add: RenderConstants_def headKeysOf_def)
  next
    case False
    from RenderConstants_loop_text [OF headKeys_blocks [OF assms(1,2)] assms(3), of NoCursor]
    show ?thesis using False by (auto simp add: RenderConstants_def)
  qed
  from heads bytes show ?thesis
    by (simp add: RenderConstants_sameMap)
qed

lemma healthy_new: "healthy (NewWriterWithCursor (newFile acceptAll cl))"
  by (simp add: healthy_def reliable_def NewWriterWithCursor_def newFile_def acceptAll_def)

theorem constants_in_chain_order_witness:
  "\<exists>cursor w'.
     RenderConstants sampleHeap sampleDecls (NewWriterWithCursor (newFile acceptAll None))
       = Some (cursor, w')
     \<and> fbytes (dest w')
       = ''const ('' @ NL @ TAB @ ''A int = iota'' @ NL @ TAB @ ''B'' @ NL @ '')'' @ NL @ NL
           @ ''const Z = 26'' @ NL @ NL"
proof -
  have d: "distinct (map fst (Constants sampleDecls))"
    by (simp add: sampleDecls_def)
  have c: "\<forall>(key, a) \<in> set (Constants sampleDecls).
      cPrev (sampleHeap a) = None \<longrightarrow>
      chain sampleHeap (Some a) (if key = ''A'' then [10, 20] else [30])"
    by (auto simp add: sampleDecls_def sampleHeap_def constA_def constB_def constZ_def
        intro!: chain.intros)
  have keys: "sort (headKeysOf sampleHeap (Constants sampleDecls)) = [''A'', ''Z'']"
    by (simp add: headKeysOf_def sampleDecls_def sampleHeap_def constA_def constB_def constZ_def)
  have texts: "blockText sampleHeap [10, 20]
        = ''const ('' @ NL @ TAB @ ''A int = iota'' @ NL @ TAB @ ''B'' @ NL @ '')'' @ NL @ NL"
    "blockText sampleHeap [30] = ''const Z = 26'' @ NL @ NL"
    by (simp_all add: blockText_def constText_def sampleHeap_def constA_def constB_def
        constZ_def)
  have empty: "fbytes (dest (NewWriterWithCursor (newFile acceptAll None))) = []"
    by (simp add: NewWriterWithCursor_def newFile_def)
  from constants_in_chain_order [OF d c healthy_new, THEN conjunct2, THEN conjunct1, of None]
  show ?thesis
    unfolding keys empty by (simp add: texts)
qed

subsection \<open>Composing main.go from declarations\<close>

lemma merge_no_error:
  "Error w = None \<Longrightarrow>
   mergeCursorAndReportError cursor err w c name
     = (False, if HasCursor c then c else cursor, err)"
  by (simp add: mergeCursorAndReportError_def)

lemma merge_error:
  "Error w \<noteq> None \<Longrightarrow>
   mergeCursorAndReportError cursor None w c name = (True, cursor, None)"
  by (simp add: mergeCursorAndReportError_def errors_WithMessagef_def)

lemma createMainContents_no_error:
  "createMainContentsFromDecls quote h writer decls mainDecl = Some (cursor, err, w) \<Longrightarrow> err = None"
  by (auto simp add: createMainContentsFromDecls_def mergeCursorAndReportError_def
      errors_WithMessagef_def Let_def split: prod.splits option.splits if_splits)

lemmas run_render = RenderImports_def RenderImports_body_def RenderTypes_def RenderTypes_body_def
  RenderVariables_def RenderVariables_body_def RenderFunctions_def RenderFunctions_body_def
  RenderConstants_def Constant_Render_def RenderConstants_entry_def headKeysOf_def
  sortedKeys_def strings_HasPrefix_def

lemmas sample_decls = noDecls_def twoImports_def onlyType_def onlyConstant_def onlyVariable_def
  onlyFunction_def importFmt_def importOs_def typeT_def varV_def funcF_def constZ_def
  sampleHeap_def quoteLetters_def mainSample_def

text \<open>
  C1. The claim: when a write fails during a phase, the composer returns an error that is
  not nil, wrapped with the name of the phase, and no byte after the failure reaches the
  destination. The composer does not return the error: \<^verbatim>\<open>mergeCursorAndReportError\<close>
  wraps the result \<open>err\<close> of the composer, which is nil, and not the error of the
  writer. Here the destination is full after 20 bytes and the model holds two imports: the
  write of \<^verbatim>\<open>import (\<close> fails after 6 bytes, the writer holds the error, the
  destination holds no byte after the failure, and the composer returns a nil error.
\<close>

theorem write_error_not_reported:
  "createMainContentsFromDecls quoteLetters sampleHeap (newFile (failAfter 20) None)
     twoImports None
   = Some (NoCursor, None,
       \<lparr>dest = \<lparr>fbytes = ''package main'' @ NL @ NL @ ''import'', faccept = failAfter 20,
                 fcloseErr = None, fclosed = False\<rparr>,
         werr = Some (ShortWrite (''import ('' @ NL) 9 6), wLine = 2, wCol = 0\<rparr>)"
  by (simp add: createMainContentsFromDecls_def run_render sample_decls run_writer merge_error
      Error_def)

text \<open>
  C6. When the writer holds an error at the end of a phase, the composer returns at once:
  the renderers after that phase and the write of the entry point are not invoked. The
  writer is as the failed phase left it, so the destination holds no further byte, and the
  cursor is the last candidate, not the sentinel, of the phases before the failed one:
  neither the failed phase nor the entry point gives the cursor.
\<close>

theorem stops_at_failed_phase:
  assumes "w0 = Writef (NewWriterWithCursor writer) (''package main'' @ NL @ NL)"
  shows "(RenderImports quote decls w0 = (c1, w1) \<and> Error w1 \<noteq> None \<longrightarrow>
            map_option (\<lambda>(cursor, err, w). (cursor, w))
              (createMainContentsFromDecls quote h writer decls mainDecl)
            = Some (NoCursor, w1))
       \<and> (RenderImports quote decls w0 = (c1, w1) \<and> Error w1 = None
            \<and> RenderTypes decls w1 = (c2, w2) \<and> Error w2 \<noteq> None \<longrightarrow>
            map_option (\<lambda>(cursor, err, w). (cursor, w))
              (createMainContentsFromDecls quote h writer decls mainDecl)
            = Some (lastCursor [c1], w2))
       \<and> (RenderImports quote decls w0 = (c1, w1) \<and> Error w1 = None
            \<and> RenderTypes decls w1 = (c2, w2) \<and> Error w2 = None
            \<and> RenderConstants h decls w2 = Some (c3, w3) \<and> Error w3 \<noteq> None \<longrightarrow>
            map_option (\<lambda>(cursor, err, w). (cursor, w))
              (createMainContentsFromDecls quote h writer decls mainDecl)
            = Some (lastCursor [c1, c2], w3))
       \<and> (RenderImports quote decls w0 = (c1, w1) \<and> Error w1 = None
            \<and> RenderTypes decls w1 = (c2, w2) \<and> Error w2 = None
            \<and> RenderConstants h decls w2 = Some (c3, w3) \<and> Error w3 = None
            \<and> RenderVariables decls w3 = (c4, w4) \<and> Error w4 \<noteq> None \<longrightarrow>
            map_option (\<lambda>(cursor, err, w). (cursor, w))
              (createMainContentsFromDecls quote h writer decls mainDecl)
            = Some (lastCursor [c1, c2, c3], w4))
       \<and> (RenderImports quote decls w0 = (c1, w1) \<and> Error w1 = None
            \<and> RenderTypes decls w1 = (c2, w2) \<and> Error w2 = None
            \<and> RenderConstants h decls w2 = Some (c3, w3) \<and> Error w3 = None
            \<and> RenderVariables decls w3 = (c4, w4) \<and> Error w4 = None
            \<and> RenderFunctions decls w4 = (c5, w5) \<and> Error w5 \<noteq> None \<longrightarrow>
            map_option (\<lambda>(cursor, err, w). (cursor, w))
              (createMainContentsFromDecls quote h writer decls mainDecl)
            = Some (lastCursor [c1, c2, c3, c4], w5))"
proof (intro conjI impI; elim conjE)
  assume "RenderImports quote decls w0 = (c1, w1)" "Error w1 \<noteq> None"
  with assms show "map_option (\<lambda>(cursor, err, w). (cursor, w))
      (createMainContentsFromDecls quote h writer decls mainDecl) = Some (NoCursor, w1)"
    by (simp add: createMainContentsFromDecls_def merge_error Let_def)
next
  assume "RenderImports quote decls w0 = (c1, w1)" "Error w1 = None"
    "RenderTypes decls w1 = (c2, w2)" "Error w2 \<noteq> None"
  with assms show "map_option (\<lambda>(cursor, err, w). (cursor, w))
      (createMainContentsFromDecls quote h writer decls mainDecl) = Some (lastCursor [c1], w2)"
    by (simp add: createMainContentsFromDecls_def merge_error merge_no_error Let_def
        lastCursor_def mergeCursorAndReportError_def errors_WithMessagef_def)
next
  assume "RenderImports quote decls w0 = (c1, w1)" "Error w1 = None"
    "RenderTypes decls w1 = (c2, w2)" "Error w2 = None"
    "RenderConstants h decls w2 = Some (c3, w3)" "Error w3 \<noteq> None"
  with assms show "map_option (\<lambda>(cursor, err, w). (cursor, w))
      (createMainContentsFromDecls quote h writer decls mainDecl) = Some (lastCursor [c1, c2], w3)"
    by (simp add: createMainContentsFromDecls_def merge_error merge_no_error Let_def
        lastCursor_def mergeCursorAndReportError_def errors_WithMessagef_def)
next
  assume "RenderImports quote decls w0 = (c1, w1)" "Error w1 = None"
    "RenderTypes decls w1 = (c2, w2)" "Error w2 = None"
    "RenderConstants h decls w2 = Some (c3, w3)" "Error w3 = None"
    "RenderVariables decls w3 = (c4, w4)" "Error w4 \<noteq> None"
  with assms show "map_option (\<lambda>(cursor, err, w). (cursor, w))
      (createMainContentsFromDecls quote h writer decls mainDecl)
      = Some (lastCursor [c1, c2, c3], w4)"
    by (simp add: createMainContentsFromDecls_def merge_error merge_no_error Let_def
        lastCursor_def mergeCursorAndReportError_def errors_WithMessagef_def)
next
  assume "RenderImports quote decls w0 = (c1, w1)" "Error w1 = None"
    "RenderTypes decls w1 = (c2, w2)" "Error w2 = None"
    "RenderConstants h decls w2 = Some (c3, w3)" "Error w3 = None"
    "RenderVariables decls w3 = (c4, w4)" "Error w4 = None"
    "RenderFunctions decls w4 = (c5, w5)" "Error w5 \<noteq> None"
  with assms show "map_option (\<lambda>(cursor, err, w). (cursor, w))
      (createMainContentsFromDecls quote h writer decls mainDecl)
      = Some (lastCursor [c1, c2, c3, c4], w5)"
    by (simp add: createMainContentsFromDecls_def merge_error merge_no_error Let_def
        lastCursor_def mergeCursorAndReportError_def errors_WithMessagef_def)
qed

theorem stops_at_failed_phase_witness:
  "map_option (\<lambda>(cursor, err, w). (cursor, w))
     (createMainContentsFromDecls quoteLetters sampleHeap (newFile (failAfter 20) None)
        twoImports (Some mainSample))
     = Some (NoCursor,
       \<lparr>dest = \<lparr>fbytes = ''package main'' @ NL @ NL @ ''import'', faccept = failAfter 20,
                fcloseErr = None, fclosed = False\<rparr>,
         werr = Some (ShortWrite (''import ('' @ NL) 9 6), wLine = 2, wCol = 0\<rparr>)
   \<and> map_option (\<lambda>(cursor, err, w). (cursor, w))
     (createMainContentsFromDecls quoteLetters sampleHeap (newFile (failAfter 16) None)
        onlyType (Some mainSample))
     = Some (NoCursor,
       \<lparr>dest = \<lparr>fbytes = ''package main'' @ NL @ NL @ ''ty'', faccept = failAfter 16,
                fcloseErr = None, fclosed = False\<rparr>,
         werr = Some (ShortWrite (''type '') 5 2), wLine = 2, wCol = 0\<rparr>)
   \<and> map_option (\<lambda>(cursor, err, w). (cursor, w))
     (createMainContentsFromDecls quoteLetters sampleHeap (newFile (failAfter 16) None)
        onlyConstant (Some mainSample))
     = Some (NoCursor,
       \<lparr>dest = \<lparr>fbytes = ''package main'' @ NL @ NL @ ''co'', faccept = failAfter 16,
                fcloseErr = None, fclosed = False\<rparr>,
         werr = Some (ShortWrite (''const '') 6 2), wLine = 2, wCol = 0\<rparr>)
   \<and> map_option (\<lambda>(cursor, err, w). (cursor, w))
     (createMainContentsFromDecls quoteLetters sampleHeap (newFile (failAfter 16) None)
        onlyVariable (Some mainSample))
     = Some (NoCursor,
       \<lparr>dest = \<lparr>fbytes = ''package main'' @ NL @ NL @ ''va'', faccept = failAfter 16,
                fcloseErr = None, fclosed = False\<rparr>,
         werr = Some (ShortWrite (''var ('' @ NL) 6 2), wLine = 2, wCol = 0\<rparr>)
   \<and> map_option (\<lambda>(cursor, err, w). (cursor, w))
     (createMainContentsFromDecls quoteLetters sampleHeap (newFile (failAfter 16) None)
        onlyFunction (Some mainSample))
     = Some (NoCursor,
       \<lparr>dest = \<lparr>fbytes = ''package main'' @ NL @ NL @ ''fu'', faccept = failAfter 16,
                fcloseErr = None, fclosed = False\<rparr>,
         werr = Some (ShortWrite (''func f() {}'' @ NL @ NL) 13 2), wLine = 2, wCol = 0\<rparr>)"
proof -
  let ?W20 = "Writef (NewWriterWithCursor (newFile (failAfter 20) None)) (''package main'' @ NL @ NL)"
  let ?W16 = "Writef (NewWriterWithCursor (newFile (failAfter 16) None)) (''package main'' @ NL @ NL)"
  let ?I = "\<lparr>dest = \<lparr>fbytes = ''package main'' @ NL @ NL @ ''import'', faccept = failAfter 20,
                fcloseErr = None, fclosed = False\<rparr>,
         werr = Some (ShortWrite (''import ('' @ NL) 9 6), wLine = 2, wCol = 0\<rparr>"
  let ?T = "\<lparr>dest = \<lparr>fbytes = ''package main'' @ NL @ NL @ ''ty'', faccept = failAfter 16,
                fcloseErr = None, fclosed = False\<rparr>,
         werr = Some (ShortWrite (''type '') 5 2), wLine = 2, wCol = 0\<rparr>"
  let ?C = "\<lparr>dest = \<lparr>fbytes = ''package main'' @ NL @ NL @ ''co'', faccept = failAfter 16,
                fcloseErr = None, fclosed = False\<rparr>,
         werr = Some (ShortWrite (''const '') 6 2), wLine = 2, wCol = 0\<rparr>"
  let ?V = "\<lparr>dest = \<lparr>fbytes = ''package main'' @ NL @ NL @ ''va'', faccept = failAfter 16,
                fcloseErr = None, fclosed = False\<rparr>,
         werr = Some (ShortWrite (''var ('' @ NL) 6 2), wLine = 2, wCol = 0\<rparr>"
  let ?F = "\<lparr>dest = \<lparr>fbytes = ''package main'' @ NL @ NL @ ''fu'', faccept = failAfter 16,
                fcloseErr = None, fclosed = False\<rparr>,
         werr = Some (ShortWrite (''func f() {}'' @ NL @ NL) 13 2), wLine = 2, wCol = 0\<rparr>"
  have ok: "Error ?W16 = None"
    by (simp add: Error_def run_writer)
  have failed: "Error ?I \<noteq> None" "Error ?T \<noteq> None" "Error ?C \<noteq> None"
    "Error ?V \<noteq> None" "Error ?F \<noteq> None"
    by (simp_all add: Error_def)
  have none: "lastCursor [NoCursor] = NoCursor" "lastCursor [NoCursor, NoCursor] = NoCursor"
    "lastCursor [NoCursor, NoCursor, NoCursor] = NoCursor"
    "lastCursor [NoCursor, NoCursor, NoCursor, NoCursor] = NoCursor"
    by (simp_all add: lastCursor_def)
  have i1: "RenderImports quoteLetters twoImports ?W20 = (\<lparr>Line = 2, Col = 2\<rparr>, ?I)"
    by (simp add: run_render sample_decls run_writer)
  have i2: "RenderImports quoteLetters onlyType ?W16 = (NoCursor, ?W16)"
    and i3: "RenderImports quoteLetters onlyConstant ?W16 = (NoCursor, ?W16)"
    and i4: "RenderImports quoteLetters onlyVariable ?W16 = (NoCursor, ?W16)"
    and i5: "RenderImports quoteLetters onlyFunction ?W16 = (NoCursor, ?W16)"
    by (simp_all add: RenderImports_def noDecls_def onlyType_def onlyConstant_def
        onlyVariable_def onlyFunction_def)
  have t2: "RenderTypes onlyType ?W16 = (NoCursor, ?T)"
    by (simp add: run_render sample_decls run_writer)
  have t3: "RenderTypes onlyConstant ?W16 = (NoCursor, ?W16)"
    and t4: "RenderTypes onlyVariable ?W16 = (NoCursor, ?W16)"
    and t5: "RenderTypes onlyFunction ?W16 = (NoCursor, ?W16)"
    by (simp_all add: RenderTypes_def noDecls_def onlyConstant_def onlyVariable_def
        onlyFunction_def)
  have c3: "RenderConstants sampleHeap onlyConstant ?W16 = Some (NoCursor, ?C)"
    by (simp add: run_render sample_decls run_writer)
  have c4: "RenderConstants sampleHeap onlyVariable ?W16 = Some (NoCursor, ?W16)"
    and c5: "RenderConstants sampleHeap onlyFunction ?W16 = Some (NoCursor, ?W16)"
    by (simp_all add: RenderConstants_def noDecls_def onlyVariable_def onlyFunction_def)
  have v4: "RenderVariables onlyVariable ?W16 = (NoCursor, ?V)"
    by (simp add: run_render sample_decls run_writer)
  have v5: "RenderVariables onlyFunction ?W16 = (NoCursor, ?W16)"
    by (simp add: RenderVariables_def noDecls_def onlyFunction_def)
  have f5: "RenderFunctions onlyFunction ?W16 = (NoCursor, ?F)"
    by (simp add: run_render sample_decls run_writer HasCursor_def NoCursor_def)
  note stops = stops_at_failed_phase [OF refl, where quote = quoteLetters and h = sampleHeap
      and mainDecl = "Some mainSample"]
  note r1 = stops [THEN conjunct1, rule_format, OF conjI [OF i1 failed(1)]]
  note r2 = stops [THEN conjunct2, THEN conjunct1, rule_format,
      OF conjI [OF i2 conjI [OF ok conjI [OF t2 failed(2)]]]]
  note r3 = stops [THEN conjunct2, THEN conjunct2, THEN conjunct1, rule_format,
      OF conjI [OF i3 conjI [OF ok conjI [OF t3 conjI [OF ok conjI [OF c3 failed(3)]]]]]]
  note r4 = stops [THEN conjunct2, THEN conjunct2, THEN conjunct2, THEN conjunct1, rule_format,
      OF conjI [OF i4 conjI [OF ok conjI [OF t4 conjI [OF ok conjI [OF c4 conjI [OF ok
        conjI [OF v4 failed(4)]]]]]]]]
  note r5 = stops [THEN conjunct2, THEN conjunct2, THEN conjunct2, THEN conjunct2, rule_format,
      OF conjI [OF i5 conjI [OF ok conjI [OF t5 conjI [OF ok conjI [OF c5 conjI [OF ok
        conjI [OF v5 conjI [OF ok conjI [OF f5 failed(5)]]]]]]]]]]
  from r1 r2 r3 r4 r5 show ?thesis
    unfolding none by (intro conjI)
qed

text \<open>
  The claim as it is stated, that every remaining renderer and the write of the entry point
  are still invoked, fails: with a destination that is full after 20 bytes, two imports
  and an entry point that carries a marker, the composer returns the sentinel, while the
  composer that invokes all the phases returns the position of the marker of the entry
  point.
\<close>

theorem stops_at_failed_phase_counterexample:
  "map_option fst (createMainContentsFromDecls quoteLetters sampleHeap
       (newFile (failAfter 20) None) twoImports (Some mainSample))
     = Some NoCursor
   \<and> map_option fst (createMainContents_allPhases quoteLetters sampleHeap
       (newFile (failAfter 20) None) twoImports (Some mainSample))
     = Some \<lparr>Line = 2, Col = 5\<rparr>"
  by (simp add: createMainContentsFromDecls_def createMainContents_allPhases_def run_render
      sample_decls run_writer merge_error Error_def writeMainDecl_def lastCursor_def
      HasCursor_def NoCursor_def NoCursorLine_def)

text \<open>
  C9. When the entry point carries a marker and the five phases leave the writer without
  error, so that the composer reaches the entry point, the line of the cursor that the
  composer returns is the line of the marker plus the line that the writer has reached when
  the text of the entry point is written (after the blank separator), and its column is the
  column of the marker as it is, whatever the line of the marker: the column of the writer
  is not added.
\<close>

theorem entry_point_cursor:
  assumes "w0 = Writef (NewWriterWithCursor writer) (''package main'' @ NL @ NL)"
    and "RenderImports quote decls w0 = (c1, w1)" and "Error w1 = None"
    and "RenderTypes decls w1 = (c2, w2)" and "Error w2 = None"
    and "RenderConstants h decls w2 = Some (c3, w3)" and "Error w3 = None"
    and "RenderVariables decls w3 = (c4, w4)" and "Error w4 = None"
    and "RenderFunctions decls w4 = (c5, w5)" and "Error w5 = None"
    and "HasCursor (fnCursor m)"
    and "atMain = Writef w5 NL"
  shows "map_option fst (createMainContentsFromDecls quote h writer decls (Some m))
           = Some \<lparr>Line = Line (fnCursor m) + wLine atMain, Col = Col (fnCursor m)\<rparr>"
  using assms
  by (simp add: createMainContentsFromDecls_def merge_no_error writeMainDecl_def Let_def)

theorem entry_point_cursor_witness:
  "map_option fst (createMainContentsFromDecls quoteLetters sampleHeap (newFile acceptAll None)
      twoImports (Some mainSample))
     = Some \<lparr>Line = 8, Col = 5\<rparr>"
proof -
  let ?W0 = "Writef (NewWriterWithCursor (newFile acceptAll None)) (''package main'' @ NL @ NL)"
  let ?W1 = "\<lparr>dest = \<lparr>fbytes = ''package main'' @ NL @ NL @ ''import ('' @ NL
                 @ TAB @ ''f '' @ quoteLetters ''fmt'' @ NL @ TAB @ quoteLetters ''os'' @ NL
                 @ '')'' @ NL @ NL,
               faccept = acceptAll, fcloseErr = None, fclosed = False\<rparr>,
             werr = None, wLine = 7, wCol = 0\<rparr>"
  have i: "RenderImports quoteLetters twoImports ?W0 = (\<lparr>Line = 3, Col = 3\<rparr>, ?W1)"
    by (simp add: run_render sample_decls run_writer)
  have ok: "Error ?W1 = None"
    by (simp add: Error_def)
  have t: "RenderTypes twoImports ?W1 = (NoCursor, ?W1)"
    and c: "RenderConstants sampleHeap twoImports ?W1 = Some (NoCursor, ?W1)"
    and v: "RenderVariables twoImports ?W1 = (NoCursor, ?W1)"
    and f: "RenderFunctions twoImports ?W1 = (NoCursor, ?W1)"
    by (simp_all add: RenderTypes_def RenderConstants_def RenderVariables_def RenderFunctions_def
        twoImports_def noDecls_def)
  have m: "HasCursor (fnCursor mainSample)"
    by (simp add: HasCursor_def mainSample_def NoCursorLine_def)
  from entry_point_cursor [OF refl i ok t ok c ok v ok f ok m refl]
  show ?thesis
    by (simp add: mainSample_def run_writer)
qed

text \<open>
  The claim as it is stated, for every entry point that carries a marker, fails when a
  write has failed in a phase: with a destination that is full after 20 bytes and two
  imports, the entry point carries a marker of column 5 and the composer returns the
  sentinel, of column 0, since it returns before it reaches the entry point.
\<close>

theorem entry_point_cursor_counterexample:
  "HasCursor (fnCursor mainSample)
   \<and> map_option fst (createMainContentsFromDecls quoteLetters sampleHeap
         (newFile (failAfter 20) None) twoImports (Some mainSample))
     = Some NoCursor
   \<and> Col NoCursor \<noteq> Col (fnCursor mainSample)"
  by (simp add: createMainContentsFromDecls_def run_render sample_decls run_writer merge_error
      Error_def HasCursor_def NoCursor_def NoCursorLine_def)

subsection \<open>The error of Close\<close>

text \<open>
  C7. The claim: an error of a write comes before an error of \<^verbatim>\<open>Close\<close>.
  \<^verbatim>\<open>createMainFileFromDecls\<close> itself prefers the error of the composer, but the
  composer never returns one (see C1): with a destination that is full after 20 bytes and
  whose \<^verbatim>\<open>Close\<close> fails, the write of \<^verbatim>\<open>import (\<close> fails and the error
  returned is the error of \<^verbatim>\<open>Close\<close>.
\<close>

theorem close_error_masks_write_error:
  "createMainFileFromDecls quoteLetters sampleHeap
     (\<lambda>path. Inr (newFile (failAfter 20) (Some (IOError ''close failed''))))
     ''main.go'' twoImports None
   = Some (NoCursor, Some (Wrapped (IOError ''close failed'') ''closing main.go'' []),
       Some \<lparr>fbytes = ''package main'' @ NL @ NL @ ''import'', faccept = failAfter 20,
              fcloseErr = Some (IOError ''close failed''), fclosed = True\<rparr>)"
  by (simp add: createMainFileFromDecls_def createMainContentsFromDecls_def run_render
      sample_decls run_writer merge_error Error_def os_Close_def errors_Wrapf_def)

text \<open>\<^verbatim>\<open>writeLinesToFile\<close> does keep the error of a write, whatever
  \<^verbatim>\<open>Close\<close> returns.\<close>

lemma writeLinesToFile_loop_failed:
  "writeLinesToFile_loop filePath lines (Some e, f) = (Some e, f)"
  by (induction lines) simp_all

lemma writeLinesToFile_precedence:
  assumes "os_Create filePath = Inr f"
    and "writeLinesToFile_loop filePath lines (None, f) = (Some e, f')"
  shows "fst (writeLinesToFile os_Create filePath lines) = Some e"
  using assms by (simp add: writeLinesToFile_def case_prod_unfold)

subsection \<open>Composing main.go from the lines of a cell\<close>

lemma createGoFileFromLines_loop_append:
  "createGoFileFromLines_loop skipLines cursorInCell ii (xs @ ys) st
     = createGoFileFromLines_loop skipLines cursorInCell (ii + length xs) ys
         (createGoFileFromLines_loop skipLines cursorInCell ii xs st)"
  by (induction xs arbitrary: ii st) simp_all

lemma body_writes:
  "snd (createGoFileFromLines_body skipLines cursorInCell (length before) line
          (c, list_ex isDirective before, w))
   = (list_ex isDirective (before @ [line]),
      foldl Write w (lineWrites skipLines (before @ line # after) (length before)))"
  by (simp add: createGoFileFromLines_body_def lineWrites_def isDirective_def Let_def)

lemma upt_from: "[n ..< n + Suc k] = n # [Suc n ..< Suc n + k]"
  by (simp add: upt_conv_Cons)

lemma loop_writes:
  "snd (createGoFileFromLines_loop skipLines cursorInCell (length before) rest
          (c, list_ex isDirective before, w))
   = (list_ex isDirective (before @ rest),
      foldl Write w (concat (map (lineWrites skipLines (before @ rest))
         [length before ..< length before + length rest])))"
proof (induction rest arbitrary: before c w)
  case Nil
  then show ?case by simp
next
  case (Cons line rest)
  obtain c' where st: "createGoFileFromLines_body skipLines cursorInCell (length before) line
      (c, list_ex isDirective before, w)
    = (c', list_ex isDirective (before @ [line]),
       foldl Write w (lineWrites skipLines (before @ line # rest) (length before)))"
    using body_writes [of skipLines cursorInCell before line c w rest]
    by (cases "createGoFileFromLines_body skipLines cursorInCell (length before) line
      (c, list_ex isDirective before, w)") simp
  have idx: "[length before ..< Suc (length before + length rest)]
      = length before # [Suc (length before) ..< Suc (length before) + length rest]"
    using upt_from [of "length before" "length rest"] by simp
  show ?case
    using Cons.IH [of "before @ [line]" c'
        "foldl Write w (lineWrites skipLines (before @ line # rest) (length before))"]
    by (simp add: st idx del: upt_Suc)
qed


lemma os_Close_bytes: "fbytes (snd (os_Close f)) = fbytes f"
  by (simp add: os_Close_def)

lemma foldl_Write_healthy:
  "healthy w \<Longrightarrow>
   healthy (foldl Write w texts) \<and> fbytes (dest (foldl Write w texts)) = fbytes (dest w) @ concat texts"
  by (induction texts arbitrary: w) (simp_all add: Write_healthy)

lemma healthy_NewWriter: "reliable f \<Longrightarrow> healthy (NewWriterWithCursor f)"
  by (simp add: healthy_def NewWriterWithCursor_def)

lemma createGoFileFromLines_writer:
  assumes "os_Create filePath = Inr f"
  shows "\<exists>cursorInFile err f'.
           createGoFileFromLines os_Create filePath lines skipLines cursorInCell
             = (cursorInFile, err, Some f')
         \<and> fbytes f' = fbytes (dest (foldl Write (NewWriterWithCursor f) (fileWrites skipLines lines)))"
proof -
  let ?w0 = "Write (NewWriterWithCursor f) (''package main'' @ NL @ NL)"
  obtain c created w where loop: "createGoFileFromLines_loop skipLines cursorInCell 0 lines
      (NoCursor, False, ?w0) = (c, created, w)"
    by (cases "createGoFileFromLines_loop skipLines cursorInCell 0 lines (NoCursor, False, ?w0)")
  from loop_writes [of skipLines cursorInCell "[]" lines NoCursor ?w0] loop
  have created: "created = list_ex isDirective lines"
    and w: "w = foldl Write ?w0 (concat (map (lineWrites skipLines lines) [0..<length lines]))"
    by simp_all
  have final: "(if created then Write w (NL @ ''}'' @ NL) else w)
      = foldl Write (NewWriterWithCursor f) (fileWrites skipLines lines)"
    by (simp add: created w fileWrites_def)
  show ?thesis
    using assms loop final [symmetric]
    by (simp add: createGoFileFromLines_def Let_def os_Close_bytes case_prod_unfold)
qed

text \<open>
  C10. The test for a directive line (a line that starts with \<^verbatim>\<open>%main\<close> or
  \<^verbatim>\<open>%%\<close>) comes before the test for an excluded line. When the file is created,
  \<^verbatim>\<open>createGoFileFromLines\<close> leaves in it what the writes of \<open>fileWrites\<close> leave,
  all their bytes when no write fails: after the preamble, each directive line writes the
  header \<^verbatim>\<open>func main() {\<close>, \<^verbatim>\<open>flag.Parse\<close> once, also when its index is in
  \<open>skipLines\<close>, and the closing brace is written once, after the last line, exactly
  when some line is a directive line.
\<close>

theorem directive_lines_open_main:
  assumes "os_Create filePath = Inr f"
  shows "(\<exists>cursorInFile err f'.
           createGoFileFromLines os_Create filePath lines skipLines cursorInCell
             = (cursorInFile, err, Some f')
         \<and> fbytes f' = fbytes (dest (foldl Write (NewWriterWithCursor f) (fileWrites skipLines lines)))
         \<and> (reliable f \<longrightarrow> fbytes f' = fbytes f @ concat (fileWrites skipLines lines)))
       \<and> (\<forall>i. isDirective (lines ! i) \<longrightarrow>
             lineWrites skipLines lines i = [''func main() {'' @ NL @ TAB @ ''flag.Parse'' @ NL])"
proof -
  from createGoFileFromLines_writer [where os_Create = os_Create and filePath = filePath,
      OF assms, of lines skipLines cursorInCell]
  obtain cursorInFile err f' where
    "createGoFileFromLines os_Create filePath lines skipLines cursorInCell
       = (cursorInFile, err, Some f')"
    and "fbytes f' = fbytes (dest (foldl Write (NewWriterWithCursor f) (fileWrites skipLines lines)))"
    by blast
  moreover have "reliable f \<longrightarrow>
      fbytes (dest (foldl Write (NewWriterWithCursor f) (fileWrites skipLines lines)))
        = fbytes f @ concat (fileWrites skipLines lines)"
    using foldl_Write_healthy [OF healthy_NewWriter, of f "fileWrites skipLines lines"]
    by (simp add: NewWriterWithCursor_def)
  moreover have "\<forall>i. isDirective (lines ! i) \<longrightarrow>
      lineWrites skipLines lines i = [''func main() {'' @ NL @ TAB @ ''flag.Parse'' @ NL]"
    by (simp add: lineWrites_def)
  ultimately show ?thesis by simp
qed

lemma reliable_acceptAll: "reliable (newFile acceptAll cl)"
  by (simp add: reliable_def newFile_def acceptAll_def)

theorem directive_lines_open_main_witness:
  "\<exists>cursorInFile err f'.
     createGoFileFromLines (\<lambda>path. Inr (newFile acceptAll None)) ''main.go''
       [''x := 1'', ''%%'', ''print(x)''] {1} NoCursor
       = (cursorInFile, err, Some f')
     \<and> fbytes f' = ''package main'' @ NL @ NL @ ''x := 1'' @ NL
          @ ''func main() {'' @ NL @ TAB @ ''flag.Parse'' @ NL
          @ TAB @ ''print(x)'' @ NL @ NL @ ''}'' @ NL"
proof -
  have texts: "concat (fileWrites {1} [''x := 1'', ''%%'', ''print(x)''])
      = ''package main'' @ NL @ NL @ ''x := 1'' @ NL
          @ ''func main() {'' @ NL @ TAB @ ''flag.Parse'' @ NL
          @ TAB @ ''print(x)'' @ NL @ NL @ ''}'' @ NL"
    by (simp add: fileWrites_def lineWrites_def isDirective_def strings_HasPrefix_def
        upt_conv_Cons)
  from directive_lines_open_main [where os_Create = "\<lambda>path. Inr (newFile acceptAll None)"
      and filePath = "''main.go''" and lines = "[''x := 1'', ''%%'', ''print(x)'']"
      and skipLines = "{1}" and cursorInCell = NoCursor, OF refl, THEN conjunct1]
    reliable_acceptAll [of None]
  have "\<exists>cursorInFile err f'.
     createGoFileFromLines (\<lambda>path. Inr (newFile acceptAll None)) ''main.go''
       [''x := 1'', ''%%'', ''print(x)''] {1} NoCursor
       = (cursorInFile, err, Some f')
     \<and> fbytes f' = fbytes (newFile acceptAll None)
          @ concat (fileWrites {1} [''x := 1'', ''%%'', ''print(x)''])"
    by blast
  then show ?thesis
    unfolding texts by (simp add: newFile_def)
qed

lemma body_cursor_kept:
  "of_nat ii = Line cursorInCell \<longrightarrow> isDirective line \<or> of_nat ii \<in> skipLines \<Longrightarrow>
   fst (createGoFileFromLines_body skipLines cursorInCell ii line st) = fst st"
  by (cases st) (auto simp add: createGoFileFromLines_body_def isDirective_def Let_def)

lemma loop_cursor_kept:
  "\<forall>j. ii \<le> j \<and> j < ii + length ys \<longrightarrow> of_nat j = Line cursorInCell \<longrightarrow>
       isDirective (ys ! (j - ii)) \<or> of_nat j \<in> skipLines \<Longrightarrow>
   fst (createGoFileFromLines_loop skipLines cursorInCell ii ys st) = fst st"
proof (induction ys arbitrary: ii st)
  case Nil
  then show ?case by simp
next
  case (Cons line ys)
  from Cons.prems [rule_format, of ii] have head: "of_nat ii = Line cursorInCell \<longrightarrow>
      isDirective line \<or> of_nat ii \<in> skipLines"
    by simp
  have tail: "\<forall>j. Suc ii \<le> j \<and> j < Suc ii + length ys \<longrightarrow> of_nat j = Line cursorInCell \<longrightarrow>
      isDirective (ys ! (j - Suc ii)) \<or> of_nat j \<in> skipLines"
  proof (intro allI impI)
    fix j
    assume j: "Suc ii \<le> j \<and> j < Suc ii + length ys" and eq: "of_nat j = Line cursorInCell"
    then have "(line # ys) ! (j - ii) = ys ! (j - Suc ii)"
      by (simp add: nth_Cons')
    with Cons.prems [rule_format, of j] j eq
    show "isDirective (ys ! (j - Suc ii)) \<or> of_nat j \<in> skipLines"
      by simp
  qed
  show ?case
    using Cons.IH [OF tail] body_cursor_kept [OF head] by simp
qed

lemma of_nat_64_inj:
  assumes "i < 2 ^ 64" and "j < 2 ^ 64" and "(of_nat i :: 64 word) = of_nat j"
  shows "i = j"
proof -
  from assms(3) have "unat (of_nat i :: 64 word) = unat (of_nat j :: 64 word)"
    by simp
  with assms(1,2) show ?thesis
    by (simp add: unat_of_nat)
qed

lemma cursor_reached:
  assumes created: "os_Create filePath = Inr f"
    and i: "i < length lines" and len: "length lines < 2 ^ 64"
    and line: "Line cursorInCell = of_nat i"
    and reached: "createGoFileFromLines_loop skipLines cursorInCell 0 (take i lines)
         (NoCursor, False, Write (NewWriterWithCursor f) (''package main'' @ NL @ NL))
       = (c, createdFuncMain, w)"
  shows "fst (createGoFileFromLines os_Create filePath lines skipLines cursorInCell)
       = fst (createGoFileFromLines_body skipLines cursorInCell i (lines ! i)
               (NoCursor, createdFuncMain, w))"
proof -
  let ?w0 = "Write (NewWriterWithCursor f) (''package main'' @ NL @ NL)"
  let ?loop = "createGoFileFromLines_loop skipLines cursorInCell"
  have other: "\<And>j. j < length lines \<Longrightarrow> j \<noteq> i \<Longrightarrow> of_nat j \<noteq> Line cursorInCell"
    using of_nat_64_inj [of _ i] i len line by (metis order_less_trans)
  have "fst (?loop 0 (take i lines) (NoCursor, False, ?w0)) = NoCursor"
    using loop_cursor_kept [of 0 "take i lines" cursorInCell skipLines "(NoCursor, False, ?w0)"]
      other i by simp
  with reached have c: "c = NoCursor" by simp
  have split: "lines = take i lines @ (lines ! i) # drop (Suc i) lines"
    using i by (simp add: id_take_nth_drop)
  have rest: "\<forall>j. Suc i \<le> j \<and> j < Suc i + length (drop (Suc i) lines) \<longrightarrow>
      of_nat j = Line cursorInCell \<longrightarrow>
      isDirective (drop (Suc i) lines ! (j - Suc i)) \<or> of_nat j \<in> skipLines"
    using other i by auto
  have "?loop 0 lines (NoCursor, False, ?w0)
      = ?loop (Suc i) (drop (Suc i) lines)
          (createGoFileFromLines_body skipLines cursorInCell i (lines ! i)
             (NoCursor, createdFuncMain, w))"
    using i reached c
    by (subst split) (simp add: createGoFileFromLines_loop_append min_def)
  then have "fst (?loop 0 lines (NoCursor, False, ?w0))
      = fst (createGoFileFromLines_body skipLines cursorInCell i (lines ! i)
             (NoCursor, createdFuncMain, w))"
    using loop_cursor_kept [OF rest] by simp
  then show ?thesis
    using created by (simp add: createGoFileFromLines_def Let_def case_prod_unfold)
qed


lemma Write_close_fields:
  "fcloseErr (dest (Write w content)) = fcloseErr (dest w)
   \<and> fclosed (dest (Write w content)) = fclosed (dest w)"
  by (auto simp add: Write_def io_Write_def Let_def split: prod.splits)

lemma foldl_Write_close_fields:
  "fcloseErr (dest (foldl Write w texts)) = fcloseErr (dest w)
   \<and> fclosed (dest (foldl Write w texts)) = fclosed (dest w)"
  by (induction texts arbitrary: w) (simp_all add: Write_close_fields)

lemma createGoFileFromLines_no_error:
  assumes "os_Create filePath = Inr f" and "reliable f" and "fcloseErr f = None"
    and "\<not> fclosed f"
  shows "fst (snd (createGoFileFromLines os_Create filePath lines skipLines cursorInCell)) = None"
proof -
  let ?w0 = "Write (NewWriterWithCursor f) (''package main'' @ NL @ NL)"
  let ?wf = "foldl Write (NewWriterWithCursor f) (fileWrites skipLines lines)"
  obtain c created w where loop: "createGoFileFromLines_loop skipLines cursorInCell 0 lines
      (NoCursor, False, ?w0) = (c, created, w)"
    by (cases "createGoFileFromLines_loop skipLines cursorInCell 0 lines (NoCursor, False, ?w0)")
  from loop_writes [of skipLines cursorInCell "[]" lines NoCursor ?w0] loop
  have created: "created = list_ex isDirective lines"
    and w: "w = foldl Write ?w0 (concat (map (lineWrites skipLines lines) [0..<length lines]))"
    by simp_all
  have final: "(if created then Write w (NL @ ''}'' @ NL) else w) = ?wf"
    by (simp add: created w fileWrites_def)
  let ?end = "if created then Write w (NL @ ''}'' @ NL) else w"
  from foldl_Write_healthy [OF healthy_NewWriter [OF assms(2)], of "fileWrites skipLines lines"]
  have "Error ?wf = None"
    by (simp add: healthy_def Error_def)
  then have e1: "Error ?end = None"
    unfolding final .
  from foldl_Write_close_fields [of "NewWriterWithCursor f" "fileWrites skipLines lines"]
    assms(3,4)
  have "fst (os_Close (dest ?wf)) = None"
    by (simp add: os_Close_def NewWriterWithCursor_def)
  then have e2: "fst (os_Close (dest ?end)) = None"
    unfolding final .
  show ?thesis
    using assms(1) loop e1 e2
    by (cases created) (simp_all add: createGoFileFromLines_def Let_def case_prod_unfold)
qed

lemma body_column:
  assumes "healthy w" and "wCol w = 0"
  shows "healthy (snd (snd (createGoFileFromLines_body skipLines cursorInCell ii line (c, created, w))))
       \<and> wCol (snd (snd (createGoFileFromLines_body skipLines cursorInCell ii line (c, created, w)))) = 0"
  using assms
  by (simp add: createGoFileFromLines_body_def Let_def healthy_def reliable_def Write_def
      io_Write_def)

lemma loop_column:
  assumes "healthy (snd (snd st))" and "wCol (snd (snd st)) = 0"
  shows "healthy (snd (snd (createGoFileFromLines_loop skipLines cursorInCell ii ys st)))
       \<and> wCol (snd (snd (createGoFileFromLines_loop skipLines cursorInCell ii ys st))) = 0"
  using assms
proof (induction ys arbitrary: ii st)
  case Nil
  then show ?case by simp
next
  case (Cons line ys)
  obtain c created w where st: "st = (c, created, w)" by (cases st)
  from Cons.prems st body_column [of w skipLines cursorInCell ii line c created]
  show ?case by (simp add: Cons.IH)
qed

lemma createGoFileFromLines_cursor:
  "os_Create filePath = Inr f \<Longrightarrow>
   fst (createGoFileFromLines os_Create filePath lines skipLines cursorInCell)
     = fst (createGoFileFromLines_loop skipLines cursorInCell 0 lines
             (NoCursor, False, Write (NewWriterWithCursor f) (''package main'' @ NL @ NL)))"
  by (simp add: createGoFileFromLines_def Let_def case_prod_unfold)

text \<open>
  C5. The file being created, let the designated position be on the line of index \<open>i\<close>,
  and let \<open>atLine\<close> be the writer when the loop reaches that line, after the tab that
  indents the line when \<^verbatim>\<open>func main\<close> is open and the line is not empty. When the
  line is neither a directive line nor excluded, the cursor returned has the line of
  \<open>atLine\<close> and the column of \<open>atLine\<close> plus the designated column; when no write
  fails, the column of \<open>atLine\<close> is 1 for an indented line and 0 otherwise. When the
  line is a directive line or is excluded, the cursor returned is the sentinel; and the
  error is nil when neither a write nor \<^verbatim>\<open>Close\<close> fails.
\<close>

theorem cursor_of_designated_line:
  assumes created: "os_Create filePath = Inr f"
    and i: "i < length lines" and len: "length lines < 2 ^ 64"
    and line: "Line cursorInCell = of_nat i"
    and reached: "createGoFileFromLines_loop skipLines cursorInCell 0 (take i lines)
         (NoCursor, False, Write (NewWriterWithCursor f) (''package main'' @ NL @ NL))
       = (c, createdFuncMain, w)"
    and atLine: "atLine = (if createdFuncMain \<and> lines ! i \<noteq> [] then Write w TAB else w)"
  shows "(\<not> isDirective (lines ! i) \<and> of_nat i \<notin> skipLines \<longrightarrow>
            fst (createGoFileFromLines os_Create filePath lines skipLines cursorInCell)
              = \<lparr>Line = wLine atLine, Col = wCol atLine + Col cursorInCell\<rparr>)
       \<and> (isDirective (lines ! i) \<or> of_nat i \<in> skipLines \<longrightarrow>
            fst (createGoFileFromLines os_Create filePath lines skipLines cursorInCell) = NoCursor)
       \<and> (reliable f \<longrightarrow> wCol atLine = (if createdFuncMain \<and> lines ! i \<noteq> [] then 1 else 0))
       \<and> (reliable f \<and> fcloseErr f = None \<and> \<not> fclosed f \<longrightarrow>
            fst (snd (createGoFileFromLines os_Create filePath lines skipLines cursorInCell))
              = None)"
proof (intro conjI impI)
  note result = cursor_reached [where os_Create = os_Create and filePath = filePath,
      OF created i len line reached]
  {
    assume "\<not> isDirective (lines ! i) \<and> of_nat i \<notin> skipLines"
    then show "fst (createGoFileFromLines os_Create filePath lines skipLines cursorInCell)
        = \<lparr>Line = wLine atLine, Col = wCol atLine + Col cursorInCell\<rparr>"
      using result line atLine
      by (simp add: createGoFileFromLines_body_def isDirective_def Let_def CursorPlusDelta_def
          CursorOf_def)
  }
  {
    assume "isDirective (lines ! i) \<or> of_nat i \<in> skipLines"
    then show "fst (createGoFileFromLines os_Create filePath lines skipLines cursorInCell)
        = NoCursor"
      using result line body_cursor_kept [of i cursorInCell "lines ! i" skipLines
          "(NoCursor, createdFuncMain, w)"]
      by auto
  }
  {
    assume rel: "reliable f"
    let ?w0 = "Write (NewWriterWithCursor f) (''package main'' @ NL @ NL)"
    from rel have "healthy ?w0" and "wCol ?w0 = 0"
      by (simp_all add: healthy_def reliable_def Write_def io_Write_def NewWriterWithCursor_def
          Let_def)
    with loop_column [of "(NoCursor, False, ?w0)" skipLines cursorInCell 0 "take i lines"] reached
    have "healthy w" and "wCol w = 0"
      by simp_all
    then show "wCol atLine = (if createdFuncMain \<and> lines ! i \<noteq> [] then 1 else 0)"
      using atLine
      by (simp add: healthy_def reliable_def Write_def io_Write_def Let_def)
  }
  {
    assume "reliable f \<and> fcloseErr f = None \<and> \<not> fclosed f"
    then show "fst (snd (createGoFileFromLines os_Create filePath lines skipLines cursorInCell))
        = None"
      using createGoFileFromLines_no_error [where os_Create = os_Create
          and filePath = filePath, OF created] by simp
  }
qed

theorem cursor_of_designated_line_witness:
  "fst (createGoFileFromLines (\<lambda>path. Inr (newFile acceptAll None)) ''main.go''
          [''x := 1'', ''%%'', ''print(x)''] {} \<lparr>Line = 2, Col = 3\<rparr>)
     = \<lparr>Line = 5, Col = 4\<rparr>
   \<and> fst (createGoFileFromLines (\<lambda>path. Inr (newFile acceptAll None)) ''main.go''
          [''x := 1'', ''%%'', ''print(x)''] {} \<lparr>Line = 1, Col = 0\<rparr>)
     = NoCursor
   \<and> fst (snd (createGoFileFromLines (\<lambda>path. Inr (newFile acceptAll None)) ''main.go''
          [''x := 1'', ''%%'', ''print(x)''] {} \<lparr>Line = 1, Col = 0\<rparr>))
     = None
   \<and> fst (createGoFileFromLines (\<lambda>path. Inr (newFile acceptAll None)) ''main.go''
          [''x := 1'', ''%%'', ''print(x)''] {2} \<lparr>Line = 2, Col = 3\<rparr>)
     = NoCursor"
proof -
  let ?L = "[''x := 1'', ''%%'', ''print(x)'']"
  let ?W0 = "Write (NewWriterWithCursor (newFile acceptAll None)) (''package main'' @ NL @ NL)"
  let ?W2 = "\<lparr>dest = \<lparr>fbytes = ''package main'' @ NL @ NL @ ''x := 1'' @ NL
                   @ ''func main() {'' @ NL @ TAB @ ''flag.Parse'' @ NL,
                 faccept = acceptAll, fcloseErr = None, fclosed = False\<rparr>,
              werr = None, wLine = 5, wCol = 0\<rparr>"
  note T = cursor_of_designated_line [where os_Create = "\<lambda>path. Inr (newFile acceptAll None)"
      and filePath = "''main.go''" and lines = ?L, OF refl]
  have len: "length ?L < 2 ^ 64" and i1: "1 < length ?L" and i2: "2 < length ?L"
    by simp_all
  have l1: "Line \<lparr>Line = 1, Col = 0\<rparr> = of_nat 1" and l2: "Line \<lparr>Line = 2, Col = 3\<rparr> = of_nat 2"
    by simp_all
  have line1: "isDirective (?L ! 1) \<or> (of_nat 1 :: 64 word) \<in> {}"
    and line2: "\<not> isDirective (?L ! 2) \<and> (of_nat 2 :: 64 word) \<notin> {}"
    and line2': "isDirective (?L ! 2) \<or> (of_nat 2 :: 64 word) \<in> {2}"
    by (simp_all add: isDirective_def strings_HasPrefix_def)
  have ok: "reliable (newFile acceptAll None) \<and> fcloseErr (newFile acceptAll None) = None
      \<and> \<not> fclosed (newFile acceptAll None)"
    by (simp add: reliable_acceptAll) (simp add: newFile_def)
  have r2: "createGoFileFromLines_loop {} \<lparr>Line = 2, Col = 3\<rparr> 0 (take 2 ?L) (NoCursor, False, ?W0)
      = (NoCursor, True, ?W2)"
    by (simp add: createGoFileFromLines_body_def strings_HasPrefix_def) (simp add: run_writer)
  have at2: "wLine (Write ?W2 TAB) = 5" "wCol (Write ?W2 TAB) = 1"
    by (simp_all add: run_writer)
  have a: "fst (createGoFileFromLines (\<lambda>path. Inr (newFile acceptAll None)) ''main.go'' ?L {}
        \<lparr>Line = 2, Col = 3\<rparr>) = \<lparr>Line = 5, Col = 4\<rparr>"
    using T [OF i2 len l2 r2 refl, THEN conjunct1, rule_format, OF line2] at2
    by simp
  obtain c1 m1 w1 where r1: "createGoFileFromLines_loop {} \<lparr>Line = 1, Col = 0\<rparr> 0 (take 1 ?L)
      (NoCursor, False, ?W0) = (c1, m1, w1)"
    by (rule prod_cases3)
  obtain c3 m3 w3 where r3: "createGoFileFromLines_loop {2} \<lparr>Line = 2, Col = 3\<rparr> 0 (take 2 ?L)
      (NoCursor, False, ?W0) = (c3, m3, w3)"
    by (rule prod_cases3)
  note b = T [OF i1 len l1 r1 refl, THEN conjunct2, THEN conjunct1, rule_format, OF line1]
  note e = T [OF i1 len l1 r1 refl, THEN conjunct2, THEN conjunct2, THEN conjunct2, rule_format,
      OF ok]
  note c = T [OF i2 len l2 r3 refl, THEN conjunct2, THEN conjunct1, rule_format, OF line2']
  from a b e c show ?thesis
    by (intro conjI)
qed

text \<open>
  The claim as it is stated, that the column of the position is replaced by the designated
  column, fails for a line inside \<^verbatim>\<open>func main\<close>: the designated column 3 of the
  line \<^verbatim>\<open>print(x)\<close> gives the column 4, after the tab.
\<close>

theorem cursor_of_designated_line_counterexample:
  "fst (createGoFileFromLines (\<lambda>path. Inr (newFile acceptAll None)) ''main.go''
          [''x := 1'', ''%%'', ''print(x)''] {} \<lparr>Line = 2, Col = 3\<rparr>)
     = \<lparr>Line = 5, Col = 4\<rparr>
   \<and> Col (fst (createGoFileFromLines (\<lambda>path. Inr (newFile acceptAll None)) ''main.go''
          [''x := 1'', ''%%'', ''print(x)''] {} \<lparr>Line = 2, Col = 3\<rparr>))
     \<noteq> Col \<lparr>Line = 2, Col = 3\<rparr>"
proof -
  have loop: "createGoFileFromLines_loop {} \<lparr>Line = 2, Col = 3\<rparr> 0 [''x := 1'', ''%%'', ''print(x)'']
      (NoCursor, False,
       Write (NewWriterWithCursor (newFile acceptAll None)) (''package main'' @ NL @ NL))
    = (\<lparr>Line = 5, Col = 4\<rparr>, True,
       \<lparr>dest = \<lparr>fbytes = ''package main'' @ NL @ NL @ ''x := 1'' @ NL
                   @ ''func main() {'' @ NL @ TAB @ ''flag.Parse'' @ NL
                   @ TAB @ ''print(x)'' @ NL,
                 faccept = acceptAll, fcloseErr = None, fclosed = False\<rparr>,
         werr = None, wLine = 6, wCol = 0\<rparr>)"
    by (simp add: createGoFileFromLines_body_def strings_HasPrefix_def) (simp add: run_writer)
  have "fst (createGoFileFromLines (\<lambda>path. Inr (newFile acceptAll None)) ''main.go''
          [''x := 1'', ''%%'', ''print(x)''] {} \<lparr>Line = 2, Col = 3\<rparr>)
     = \<lparr>Line = 5, Col = 4\<rparr>"
    using createGoFileFromLines_cursor [where os_Create = "\<lambda>path. Inr (newFile acceptAll None)"
        and filePath = "''main.go''" and lines = "[''x := 1'', ''%%'', ''print(x)'']"
        and skipLines = "{}" and cursorInCell = "\<lparr>Line = 2, Col = 3\<rparr>", OF refl]
    unfolding loop by simp
  then show ?thesis
    by simp
qed

end
